theory Spec2Isabelle
  imports Main "HOL-Library.Sublist"
begin

section \<open>Go's \<open>path\<close> package as used by the sensors\<close>

text \<open>
  The sensors build every host path with \<^verbatim>\<open>path.Join(HostFileSystemDefaultLocation, p)\<close>
  (osreleasesensor.go, lines 29, 52 and 66). \<^verbatim>\<open>path.Join\<close> and \<^verbatim>\<open>path.Clean\<close> belong to
  Go's standard library; they are modelled here on the slash-separated elements of a
  path, following the four rules of \<^verbatim>\<open>path.Clean\<close>: multiple slashes count as one, a
  \<^verbatim>\<open>.\<close> element is dropped, a \<^verbatim>\<open>..\<close> element removes the element before it, and a
  \<^verbatim>\<open>..\<close> that begins a rooted path is dropped.
\<close>

fun splitSlash :: "string \<Rightarrow> string list" where
  "splitSlash [] = [[]]"
| "splitSlash (c # cs) =
     (if c = CHR ''/'' then [] # splitSlash cs
      else (case splitSlash cs of [] \<Rightarrow> [[c]] | w # ws \<Rightarrow> (c # w) # ws))"

text \<open>Go's \<^verbatim>\<open>strings.Join(elems, sep)\<close> with a one-byte separator.\<close>

fun strings_Join :: "string list \<Rightarrow> char \<Rightarrow> string" where
  "strings_Join [] sep = []"
| "strings_Join [e] sep = e"
| "strings_Join (e # es) sep = e @ sep # strings_Join es sep"

definition joinSlash :: "string list \<Rightarrow> string" where
  "joinSlash es = strings_Join es (CHR ''/'')"

text \<open>
  One step of the loop of \<^verbatim>\<open>path.Clean\<close> over the next element. The output buffer is kept
  as the list of elements written so far, the last one first. An element can be removed
  by \<^verbatim>\<open>..\<close> when the buffer holds one that is not itself a kept \<^verbatim>\<open>..\<close> (Go's
  \<^verbatim>\<open>out.w > dotdot\<close>); otherwise a rooted path drops the \<^verbatim>\<open>..\<close> and an unrooted one keeps it.
\<close>

definition cleanStep :: "bool \<Rightarrow> string list \<Rightarrow> string \<Rightarrow> string list" where
  "cleanStep rooted out e =
     (if e = [] \<or> e = ''.'' then out
      else if e = ''..'' then
        (case out of
           [] \<Rightarrow> if rooted then [] else [''..'']
         | t # ts \<Rightarrow> if t = ''..'' then ''..'' # out else ts)
      else e # out)"

definition cleanElems :: "bool \<Rightarrow> string list \<Rightarrow> string list" where
  "cleanElems rooted es = rev (foldl (cleanStep rooted) [] es)"

definition Clean :: "string \<Rightarrow> string" where
  "Clean p =
     (if p = [] then ''.''
      else
        let rooted = (hd p = CHR ''/'');
            out = joinSlash (cleanElems rooted (splitSlash p))
        in if rooted then CHR ''/'' # out
           else if out = [] then ''.'' else out)"

text \<open>
  \<^verbatim>\<open>path.Join\<close>: empty elements before the first non-empty one are ignored, the rest is
  joined with slashes and cleaned; when every element is empty the result is the empty
  string.
\<close>

definition Join :: "string list \<Rightarrow> string" where
  "Join elem =
     (if concat elem = [] then []
      else Clean (joinSlash (dropWhile (\<lambda>e. e = []) elem)))"

text \<open>
  The translation of a logical host path into the container's file system, as every
  sensor writes it inline: \<^verbatim>\<open>path.Join(HostFileSystemDefaultLocation, logicalPath)\<close>. It
  returns a string; the source has no error result at this step.
\<close>

definition Resolve :: "string \<Rightarrow> string \<Rightarrow> string" where
  "Resolve hostRoot logicalPath = Join [hostRoot, logicalPath]"

text \<open>A path is a descendant of a root when it is the root or lies below it.\<close>

definition isDescendant :: "string \<Rightarrow> string \<Rightarrow> bool" where
  "isDescendant root p =
     (p = root \<or> prefix (if root = ''/'' then root else root @ ''/'') p)"


section \<open>Processes and their command lines\<close>

text \<open>
  Modelled from the spec: the struct \<^verbatim>\<open>ProcessDetails\<close> and its methods \<^verbatim>\<open>GetArg\<close> and
  \<^verbatim>\<open>RawCmd\<close>, and \<^verbatim>\<open>LocateProcessByExecSuffix\<close>, are declared in a file of the
  repository that is not among the sources; the sensors only call them. They follow
  sections 3 and 4.2 of the specification.
\<close>

record ProcessDetails =
  PID :: nat
  ExecutablePath :: string
  Cmdline :: "string list"

datatype go_error =
    ProcessNotFound
  | ErrDataDirNotFound
  | Errorf string go_error
  | OtherError string

text \<open>A run-time panic of Go: here only the dereference of a nil pointer.\<close>

datatype go_panic = NilPointerDereference

text \<open>
  Modelled from the spec: \<^verbatim>\<open>GetArg(name)\<close> scans the tokens for one exactly equal to
  \<open>name\<close> and returns the token that follows it, or for a single token \<open>name=value\<close>;
  the first token of either form decides. Found is false, with the empty string, when
  neither form is present.
\<close>

fun GetArg_tokens :: "string list \<Rightarrow> string \<Rightarrow> string \<times> bool" where
  "GetArg_tokens [] name = ([], False)"
| "GetArg_tokens (t # ts) name =
     (if t = name \<and> ts \<noteq> [] then (hd ts, True)
      else if prefix (name @ ''='') t then (drop (length name + 1) t, True)
      else GetArg_tokens ts name)"

definition GetArg :: "ProcessDetails \<Rightarrow> string \<Rightarrow> string \<times> bool" where
  "GetArg p name = GetArg_tokens (Cmdline p) name"

text \<open>Modelled from the spec: \<^verbatim>\<open>RawCmd()\<close> joins all tokens with a single space each.\<close>

definition RawCmd :: "ProcessDetails \<Rightarrow> string" where
  "RawCmd p = strings_Join (Cmdline p) (CHR '' '')"

section \<open>File information and the host\<close>

text \<open>
  Modelled from the spec: the struct \<^verbatim>\<open>FileInfo\<close> (section 3) is declared outside the
  given sources. A nil byte slice is \<open>None\<close>.
\<close>

record FileInfo =
  Path :: string
  Content :: "string option"
  Ownership :: "nat \<times> nat"
  Permission :: nat
  IsDirectory :: bool

record CNIPaths =
  Conf_dir :: string

text \<open>A YAML document as \<^verbatim>\<open>yaml.Unmarshal\<close> decodes it into \<^verbatim>\<open>map[string]interface{}\<close>.\<close>

datatype yaml =
    YString string
  | YMap "(string \<times> yaml) list"
  | YOther

text \<open>
  The helpers the sensors call and the given sources do not define are parameters of
  the model, collected in one record. A Go result \<^verbatim>\<open>(value, error)\<close> is a pair whose
  second component is \<open>None\<close> for a nil error; a pointer or slice is an option, \<open>None\<close>
  for nil. \<^verbatim>\<open>os.Open\<close> is used for its error only.
\<close>

record host =
  HostFileSystemDefaultLocation :: string
  procs :: "ProcessDetails list"
  makeHostFileInfo :: "string \<Rightarrow> bool \<Rightarrow> FileInfo option \<times> go_error option"
  makeHostFileInfoVerbose :: "string \<Rightarrow> bool \<Rightarrow> FileInfo option"
  makeHostDirFilesInfo :: "string \<Rightarrow> bool \<Rightarrow> nat \<Rightarrow> FileInfo list option \<times> go_error option"
  makeContaineredFileInfo ::
    "string \<Rightarrow> bool \<Rightarrow> ProcessDetails \<Rightarrow> FileInfo option \<times> go_error option"
  getContainerRuntimeCNIPaths :: "CNIPaths option"
  getKubeletServiceFiles :: "nat \<Rightarrow> string list \<times> go_error option"
  os_Open :: "string \<Rightarrow> go_error option"
  ReadFileOnHostFileSystem :: "string \<Rightarrow> string \<times> go_error option"
  yaml_Unmarshal :: "string \<Rightarrow> (string \<times> yaml) list \<times> go_error option"

text \<open>
  Modelled from the spec: \<^verbatim>\<open>LocateProcessByExecSuffix(suffix)\<close> returns the first process
  of the table whose executable path ends with the suffix, or fails with
  \<open>ProcessNotFound\<close>. \<open>Inl err\<close> is Go's \<^verbatim>\<open>(nil, err)\<close> and \<open>Inr p\<close> is \<^verbatim>\<open>(&p, nil)\<close>.
\<close>

definition LocateProcessByExecSuffix :: "host \<Rightarrow> string \<Rightarrow> go_error + ProcessDetails" where
  "LocateProcessByExecSuffix h processSuffix =
     (case find (\<lambda>p. suffix processSuffix (ExecutablePath p)) (procs h) of
        None \<Rightarrow> Inl ProcessNotFound
      | Some p \<Rightarrow> Inr p)"

text \<open>The pointer a caller holds after \<^verbatim>\<open>proc, err := LocateProcessByExecSuffix(...)\<close>.\<close>

definition procPointer :: "go_error + ProcessDetails \<Rightarrow> ProcessDetails option" where
  "procPointer r = (case r of Inl err \<Rightarrow> None | Inr p \<Rightarrow> Some p)"


section \<open>The control-plane sensor (controlplanesensor.go)\<close>

definition apiServerExe :: string where "apiServerExe = ''/kube-apiserver''"
definition controllerManagerExe :: string where "controllerManagerExe = ''/kube-controller-manager''"
definition schedulerExe :: string where "schedulerExe = ''/kube-scheduler''"
definition etcdExe :: string where "etcdExe = ''/etcd''"
definition etcdDataDirArg :: string where "etcdDataDirArg = ''--data-dir''"
definition apiEncryptionProviderConfigArg :: string where
  "apiEncryptionProviderConfigArg = ''--encryption-provider-config''"

definition apiServerSpecsPath :: string where
  "apiServerSpecsPath = ''/etc/kubernetes/manifests/kube-apiserver.yaml''"
definition controllerManagerSpecsPath :: string where
  "controllerManagerSpecsPath = ''/etc/kubernetes/manifests/kube-controller-manager.yaml''"
definition controllerManagerConfigPath :: string where
  "controllerManagerConfigPath = ''/etc/kubernetes/controller-manager.conf''"
definition schedulerSpecsPath :: string where
  "schedulerSpecsPath = ''/etc/kubernetes/manifests/kube-scheduler.yaml''"
definition schedulerConfigPath :: string where
  "schedulerConfigPath = ''/etc/kubernetes/scheduler.conf''"
definition etcdConfigPath :: string where
  "etcdConfigPath = ''/etc/kubernetes/manifests/etcd.yaml''"
definition adminConfigPath :: string where
  "adminConfigPath = ''/etc/kubernetes/admin.conf''"
definition pkiDir :: string where
  "pkiDir = ''/etc/kubernetes/pki''"

record K8sProcessInfo =
  SpecsFile :: "FileInfo option"
  ConfigFile :: "FileInfo option"
  KubeConfigFile :: "FileInfo option"
  ClientCAFile :: "FileInfo option"
  CmdLine :: string

record ApiServerInfo =
  EncryptionProviderConfigFile :: "FileInfo option"
  K8sProcessInfo :: "K8sProcessInfo option"

record ControlPlaneInfo =
  APIServerInfo :: "ApiServerInfo option"
  ControllerManagerInfo :: "K8sProcessInfo option"
  SchedulerInfo :: "K8sProcessInfo option"
  EtcdConfigFile :: "FileInfo option"
  EtcdDataDir :: "FileInfo option"
  AdminConfigFile :: "FileInfo option"
  PKIDIr :: "FileInfo option"
  PKIFiles :: "FileInfo list option"
  CNIConfigFiles :: "FileInfo list option"
  CNIConfigPath :: string

record SenseError =
  Massage :: string
  Function :: string
  Code :: nat

text \<open>
  \<^verbatim>\<open>getEtcdDataDir\<close> (lines 74-87). The Go result \<^verbatim>\<open>(string, error)\<close> is a pair.
\<close>

definition getEtcdDataDir :: "host \<Rightarrow> string \<times> go_error option" where
  "getEtcdDataDir h =
     (case LocateProcessByExecSuffix h etcdExe of
        Inl err \<Rightarrow> ([], Some (Errorf ''failed to locate kube-proxy process: %w'' err))
      | Inr proc \<Rightarrow>
          (case GetArg proc etcdDataDirArg of
             (dataDir, ok) \<Rightarrow>
               if \<not> ok \<or> dataDir = [] then ([], Some ErrDataDirNotFound)
               else (dataDir, None)))"

text \<open>
  \<^verbatim>\<open>makeProcessInfoVerbose\<close> (lines 89-127). The loop over the four
  \<^verbatim>\<open>{data, path, file}\<close> entries fills one field each, skipping an empty path; the
  record of Go's zero values is \<^verbatim>\<open>K8sProcessInfo{}\<close>.
\<close>

definition K8sProcessInfo_zero :: K8sProcessInfo where
  "K8sProcessInfo_zero =
     \<lparr>SpecsFile = None, ConfigFile = None, KubeConfigFile = None, ClientCAFile = None,
      CmdLine = []\<rparr>"

definition processFile :: "host \<Rightarrow> string \<Rightarrow> FileInfo option" where
  "processFile h path = (if path = [] then None else makeHostFileInfoVerbose h path False)"

definition makeProcessInfoVerbose ::
  "host \<Rightarrow> ProcessDetails option \<Rightarrow> string \<Rightarrow> string \<Rightarrow> string \<Rightarrow> string \<Rightarrow>
   K8sProcessInfo option" where
  "makeProcessInfoVerbose h p specsPath configPath kubeConfigPath clientCaPath =
     (let ret =
        \<lparr>SpecsFile = processFile h specsPath,
         ConfigFile = processFile h configPath,
         KubeConfigFile = processFile h kubeConfigPath,
         ClientCAFile = processFile h clientCaPath,
         CmdLine = (case p of None \<Rightarrow> [] | Some pd \<Rightarrow> RawCmd pd)\<rparr>
      in if ret = K8sProcessInfo_zero then None else Some ret)"

text \<open>
  \<^verbatim>\<open>makeAPIserverEncryptionProviderConfigFile\<close> (lines 130-143). Its first statement
  calls \<^verbatim>\<open>p.GetArg\<close>, which reads the command line of \<open>p\<close>: on a nil pointer that is a
  nil-pointer dereference. (\<^verbatim>\<open>makeProcessInfoVerbose\<close> tests \<^verbatim>\<open>p != nil\<close> before it calls
  \<^verbatim>\<open>p.RawCmd\<close>; this function has no such test.)
\<close>

definition makeAPIserverEncryptionProviderConfigFile ::
  "host \<Rightarrow> ProcessDetails option \<Rightarrow> go_panic + FileInfo option" where
  "makeAPIserverEncryptionProviderConfigFile h p =
     (case p of
        None \<Rightarrow> Inl NilPointerDereference
      | Some pd \<Rightarrow>
          (case GetArg pd apiEncryptionProviderConfigArg of
             (encryptionProviderConfigPath, ok) \<Rightarrow>
               if \<not> ok then Inr None
               else
                 (case makeContaineredFileInfo h encryptionProviderConfigPath True pd of
                    (fi, Some err) \<Rightarrow> Inr None
                  | (fi, None) \<Rightarrow> Inr fi)))"

text \<open>
  \<^verbatim>\<open>SenseControlPlaneInfo\<close>, lines 146-238: the record \<open>ret\<close> as it stands when the final
  test is reached. The errors of the three lookups are logged and dropped, so each
  process pointer is nil when its lookup failed.
\<close>

definition assembleControlPlaneInfo :: "host \<Rightarrow> go_panic + ControlPlaneInfo" where
  "assembleControlPlaneInfo h =
     (let apiProc = procPointer (LocateProcessByExecSuffix h apiServerExe);
          controllerMangerProc = procPointer (LocateProcessByExecSuffix h controllerManagerExe);
          SchedulerProc = procPointer (LocateProcessByExecSuffix h schedulerExe);
          apiInfo = makeProcessInfoVerbose h apiProc apiServerSpecsPath [] [] []
      in case makeAPIserverEncryptionProviderConfigFile h apiProc of
           Inl pnc \<Rightarrow> Inl pnc
         | Inr encryptionFile \<Rightarrow>
             Inr
               \<lparr>APIServerInfo =
                  Some \<lparr>EncryptionProviderConfigFile = encryptionFile,
                        K8sProcessInfo = apiInfo\<rparr>,
                ControllerManagerInfo =
                  makeProcessInfoVerbose h controllerMangerProc controllerManagerSpecsPath
                    controllerManagerConfigPath [] [],
                SchedulerInfo =
                  makeProcessInfoVerbose h SchedulerProc schedulerSpecsPath
                    schedulerConfigPath [] [],
                EtcdConfigFile = makeHostFileInfoVerbose h etcdConfigPath False,
                EtcdDataDir =
                  (case getEtcdDataDir h of
                     (etcdDataDir, Some err) \<Rightarrow> None
                   | (etcdDataDir, None) \<Rightarrow> makeHostFileInfoVerbose h etcdDataDir False),
                AdminConfigFile = makeHostFileInfoVerbose h adminConfigPath False,
                PKIDIr = makeHostFileInfoVerbose h pkiDir False,
                PKIFiles = fst (makeHostDirFilesInfo h pkiDir True 0),
                CNIConfigFiles =
                  (case getContainerRuntimeCNIPaths h of
                     None \<Rightarrow> None
                   | Some cni_paths \<Rightarrow> fst (makeHostDirFilesInfo h (Conf_dir cni_paths) True 0)),
                CNIConfigPath =
                  (case getContainerRuntimeCNIPaths h of
                     None \<Rightarrow> []
                   | Some cni_paths \<Rightarrow> Conf_dir cni_paths)\<rparr>)"

definition notAControlPlaneNode :: SenseError where
  "notAControlPlaneNode =
     \<lparr>Massage = ''not a control plane node'', Function = ''SenseControlPlaneInfo'',
      Code = 404\<rparr>"

text \<open>
  Lines 240-257: the final test and the two returns. \<^verbatim>\<open>ret.APIServerInfo\<close> is
  dereferenced to read its embedded \<^verbatim>\<open>K8sProcessInfo\<close> pointer.
\<close>

definition returnControlPlaneInfo ::
  "ControlPlaneInfo \<Rightarrow> go_panic + (ControlPlaneInfo option \<times> SenseError option)" where
  "returnControlPlaneInfo ret =
     (case APIServerInfo ret of
        None \<Rightarrow> Inl NilPointerDereference
      | Some api \<Rightarrow>
          if K8sProcessInfo api = None \<and>
             ControllerManagerInfo ret = None \<and>
             SchedulerInfo ret = None \<and>
             EtcdConfigFile ret = None \<and>
             EtcdDataDir ret = None \<and>
             AdminConfigFile ret = None \<and>
             PKIDIr ret = None \<and>
             PKIFiles ret = None \<and>
             CNIConfigFiles ret = None
          then Inr (None, Some notAControlPlaneNode)
          else Inr (Some ret, None))"

definition SenseControlPlaneInfo ::
  "host \<Rightarrow> go_panic + (ControlPlaneInfo option \<times> SenseError option)" where
  "SenseControlPlaneInfo h =
     (case assembleControlPlaneInfo h of
        Inl pnc \<Rightarrow> Inl pnc
      | Inr ret \<Rightarrow> returnControlPlaneInfo ret)"

section \<open>The OS-release sensor (osreleasesensor.go)\<close>

definition appArmorProfilesFileName :: string where
  "appArmorProfilesFileName = ''/sys/kernel/security/apparmor/profiles''"
definition seLinuxConfigFileName :: string where
  "seLinuxConfigFileName = ''/etc/selinux/semanage.conf''"

text \<open>The calls a sensor makes on the host's files, in order.\<close>

datatype file_access =
    OsOpen string
  | ReadFile string

text \<open>
  \<^verbatim>\<open>getSELinuxStatus\<close> (lines 64-75), returning the status together with the accesses
  it made.
\<close>

definition getSELinuxStatus :: "host \<Rightarrow> string \<times> file_access list" where
  "getSELinuxStatus h =
     (let statusStr = ''not found'';
          hostAppArmorProfilesFileName =
            Join [HostFileSystemDefaultLocation h, seLinuxConfigFileName]
      in case os_Open h hostAppArmorProfilesFileName of
           Some err \<Rightarrow> (statusStr, [OsOpen hostAppArmorProfilesFileName])
         | None \<Rightarrow>
             (case ReadFileOnHostFileSystem h appArmorProfilesFileName of
                (content, err) \<Rightarrow>
                  (if err = None \<and> length content > 0 then content else statusStr,
                   [OsOpen hostAppArmorProfilesFileName, ReadFile appArmorProfilesFileName])))"


section \<open>The kubelet sensor\<close>

text \<open>The sensor of the source file \<^verbatim>\<open>src/unnamed/part_000\<close>; line numbers are its own.\<close>

definition kubeletProcessSuffix :: string where "kubeletProcessSuffix = ''/kubelet''"
definition kubeletConfigArgName :: string where "kubeletConfigArgName = ''--config''"
definition kubeletClientCAArgName :: string where "kubeletClientCAArgName = ''--client-ca-file''"
definition kubeletConfigDefaultPath :: string where
  "kubeletConfigDefaultPath = ''/var/lib/kubelet/config.yaml''"
definition kubeletKubeConfigDefaultPath :: string where
  "kubeletKubeConfigDefaultPath = ''/etc/kubernetes/kubelet.conf''"

text \<open>
  The fields of \<^verbatim>\<open>KubeletInfo\<close> (lines 22-38); four of them carry the names of fields of
  \<^verbatim>\<open>K8sProcessInfo\<close>, so they are prefixed here.
\<close>

record KubeletInfo =
  ServiceFiles :: "FileInfo list option"
  kubeletConfigFile :: "FileInfo option"
  kubeletKubeConfigFile :: "FileInfo option"
  kubeletClientCAFile :: "FileInfo option"
  kubeletCmdLine :: string

definition KubeletInfo_zero :: KubeletInfo where
  "KubeletInfo_zero =
     \<lparr>ServiceFiles = None, kubeletConfigFile = None, kubeletKubeConfigFile = None,
      kubeletClientCAFile = None, kubeletCmdLine = []\<rparr>"

definition LocateKubeletProcess :: "host \<Rightarrow> go_error + ProcessDetails" where
  "LocateKubeletProcess h = LocateProcessByExecSuffix h kubeletProcessSuffix"

text \<open>
  \<^verbatim>\<open>makeKubeletServiceFilesInfo\<close> (lines 50-70): a file whose information is nil is
  skipped; no file left gives nil.
\<close>

definition makeKubeletServiceFilesInfo :: "host \<Rightarrow> nat \<Rightarrow> FileInfo list option" where
  "makeKubeletServiceFilesInfo h pid =
     (case getKubeletServiceFiles h pid of
        (files, Some err) \<Rightarrow> None
      | (files, None) \<Rightarrow>
          (let serviceFiles = List.map_filter (\<lambda>file. makeHostFileInfoVerbose h file False) files
           in if length serviceFiles = 0 then None else Some serviceFiles))"

text \<open>The paths \<^verbatim>\<open>makeKubeletServiceFilesInfo\<close> asks file information for.\<close>

definition serviceFilesInspected :: "host \<Rightarrow> nat \<Rightarrow> string list" where
  "serviceFilesInspected h pid =
     (case getKubeletServiceFiles h pid of
        (files, Some err) \<Rightarrow> []
      | (files, None) \<Rightarrow> files)"

text \<open>
  \<^verbatim>\<open>kubeletExtractCAFileFromConf\<close> (lines 144-168): each failed type assertion returns
  the empty string with a nil error.
\<close>

definition kubeletExtractCAFileFromConf :: "host \<Rightarrow> string \<Rightarrow> string \<times> go_error option" where
  "kubeletExtractCAFileFromConf h content =
     (case yaml_Unmarshal h content of
        (confObj, Some err) \<Rightarrow> ([], Some err)
      | (confObj, None) \<Rightarrow>
          (case map_of confObj ''authentication'' of
             Some (YMap auth) \<Rightarrow>
               (case map_of auth ''x509'' of
                  Some (YMap x509) \<Rightarrow>
                    (case map_of x509 ''clientCAFile'' of
                       Some (YString clientCAFile) \<Rightarrow> (clientCAFile, None)
                     | _ \<Rightarrow> ([], None))
                | _ \<Rightarrow> ([], None))
           | _ \<Rightarrow> ([], None)))"

text \<open>
  The client CA path of lines 117-124: the argument's value, replaced by the path
  extracted from the kubelet configuration when the argument is absent, the
  configuration was read and the extraction raised no error.
\<close>

definition kubeletCAFilePath :: "host \<Rightarrow> ProcessDetails \<Rightarrow> FileInfo option \<Rightarrow> string" where
  "kubeletCAFilePath h kubeletProcess configInfo =
     (case GetArg kubeletProcess kubeletClientCAArgName of
        (caFilePath, ok) \<Rightarrow>
          (case (ok, case configInfo of None \<Rightarrow> None | Some ci \<Rightarrow> Content ci) of
             (False, Some bytes) \<Rightarrow>
               (case kubeletExtractCAFileFromConf h bytes of
                  (extracted, None) \<Rightarrow> extracted
                | (extracted, Some err) \<Rightarrow> caFilePath)
           | _ \<Rightarrow> caFilePath))"

text \<open>
  \<^verbatim>\<open>SenseKubeletInfo\<close> (lines 73-141). The constant \<^verbatim>\<open>kubeConfigArgName\<close> is declared
  outside the given sources and is a parameter. The result is Go's pair
  \<^verbatim>\<open>(&ret, err)\<close> together with the paths handed to \<^verbatim>\<open>makeHostFileInfo\<close> and
  \<^verbatim>\<open>makeHostFileInfoVerbose\<close>, in order.
\<close>

definition SenseKubeletInfo ::
  "host \<Rightarrow> string \<Rightarrow> (KubeletInfo \<times> go_error option) \<times> string list" where
  "SenseKubeletInfo h kubeConfigArgName =
     (case LocateKubeletProcess h of
        Inl err \<Rightarrow>
          ((KubeletInfo_zero, Some (Errorf ''failed to LocateKubeletProcess: %w'' err)), [])
      | Inr kubeletProcess \<Rightarrow>
          (let configPath =
                 (case GetArg kubeletProcess kubeletConfigArgName of
                    (p, ok) \<Rightarrow> if ok then p else kubeletConfigDefaultPath);
               config = makeHostFileInfo h configPath True;
               kubeConfigPath =
                 (case GetArg kubeletProcess kubeConfigArgName of
                    (p, ok) \<Rightarrow> if ok then p else kubeletConfigDefaultPath);
               kubeConfig = makeHostFileInfo h kubeConfigPath False;
               caFilePath = kubeletCAFilePath h kubeletProcess (fst config);
               ca = makeHostFileInfo h caFilePath False
           in
             ((\<lparr>ServiceFiles = makeKubeletServiceFilesInfo h (PID kubeletProcess),
                kubeletConfigFile = (if snd config = None then fst config else None),
                kubeletKubeConfigFile = (if snd kubeConfig = None then fst kubeConfig else None),
                kubeletClientCAFile =
                  (if caFilePath \<noteq> [] \<and> snd ca = None then fst ca else None),
                kubeletCmdLine = RawCmd kubeletProcess\<rparr>,
               None),
              serviceFilesInspected h (PID kubeletProcess) @ [configPath, kubeConfigPath] @
                (if caFilePath \<noteq> [] then [caFilePath] else []))))"


section \<open>The file inspector and the directory walker\<close>

text \<open>
  Modelled from the spec: \<^verbatim>\<open>makeHostFileInfo\<close>, \<^verbatim>\<open>makeHostFileInfoVerbose\<close> and
  \<^verbatim>\<open>makeHostDirFilesInfo\<close> are defined in a file of the repository that is not among
  the sources (only their callers and one test are). \<open>Inspect\<close> and \<open>Walk\<close> below follow
  sections 4.3 and 4.4 of the specification.
\<close>

datatype stat_error = NotExist | PermissionDenied

record file_stat =
  st_uid :: nat
  st_gid :: nat
  st_mode :: nat
  st_isDir :: bool
  st_bytes :: "string option"

type_synonym filesystem = "string \<Rightarrow> stat_error + file_stat"

datatype log_entry = Warning string string

text \<open>
  Modelled from the spec: \<^verbatim>\<open>Inspect(resolvedPath, withContent)\<close> performs a stat; a
  target that does not exist or cannot be accessed gives nil and one recorded warning.
  Otherwise ownership and permission come from the stat result, and the content is read
  when it is requested and the target is a regular, readable file (\<open>st_bytes\<close> is \<open>None\<close>
  for an unreadable one); a directory never has content.
\<close>

definition Inspect :: "filesystem \<Rightarrow> string \<Rightarrow> bool \<Rightarrow> FileInfo option \<times> log_entry list" where
  "Inspect fs resolvedPath withContent =
     (case fs resolvedPath of
        Inl err \<Rightarrow> (None, [Warning ''failed to stat file'' resolvedPath])
      | Inr st \<Rightarrow>
          (Some \<lparr>Path = resolvedPath,
                 Content = (if withContent \<and> \<not> st_isDir st then st_bytes st else None),
                 Ownership = (st_uid st, st_gid st),
                 Permission = st_mode st,
                 IsDirectory = st_isDir st\<rparr>,
           []))"

text \<open>
  Modelled from the spec: the file inspector depends on the path resolver, so a host
  whose \<^verbatim>\<open>makeHostFileInfoVerbose\<close> is \<open>Inspect\<close> on the resolved path, over a given
  file system; the warnings go to the log.
\<close>

definition inspectingHost :: "filesystem \<Rightarrow> host \<Rightarrow> host" where
  "inspectingHost fs h =
     h\<lparr>makeHostFileInfoVerbose :=
         (\<lambda>path readContent.
            fst (Inspect fs (Resolve (HostFileSystemDefaultLocation h) path) readContent))\<rparr>"

text \<open>A directory tree: a file with its name, or a directory with its name and entries.\<close>

datatype fsnode = FileNode string | DirNode string "fsnode list"

definition keeps :: "(string \<Rightarrow> bool) option \<Rightarrow> string \<Rightarrow> bool" where
  "keeps flt name = (case flt of None \<Rightarrow> True | Some f \<Rightarrow> f name)"

definition depthWarning :: "string \<Rightarrow> log_entry" where
  "depthWarning branch = Warning ''max recursion depth exceeded'' branch"

text \<open>
  Modelled from the spec: \<^verbatim>\<open>Walk(rootPath, recursive, filter, currentDepth)\<close> over the
  entries of \<open>rootPath\<close>, with the configured \<open>maxRecursionDepth\<close>. A file is included
  when the filter keeps it. A subdirectory is descended into only when \<open>recursive\<close>, at
  depth \<open>currentDepth + 1\<close>; when that depth reaches the maximum the branch is left with
  one warning. The result is the files found and the warnings logged; there is no
  failure.
\<close>

fun Walk ::
  "nat \<Rightarrow> string \<Rightarrow> bool \<Rightarrow> (string \<Rightarrow> bool) option \<Rightarrow> nat \<Rightarrow> fsnode list \<Rightarrow>
   string list \<times> log_entry list" where
  "Walk maxRecursionDepth rootPath recursive flt currentDepth [] = ([], [])"
| "Walk maxRecursionDepth rootPath recursive flt currentDepth (FileNode name # es) =
     (case Walk maxRecursionDepth rootPath recursive flt currentDepth es of
        (files, warnings) \<Rightarrow>
          ((if keeps flt name then [Join [rootPath, name]] else []) @ files, warnings))"
| "Walk maxRecursionDepth rootPath recursive flt currentDepth (DirNode name cs # es) =
     (let branch =
            (if \<not> recursive then ([], [])
             else if maxRecursionDepth \<le> currentDepth + 1
               then ([], [depthWarning (Join [rootPath, name])])
             else Walk maxRecursionDepth (Join [rootPath, name]) recursive flt
                    (currentDepth + 1) cs);
          others = Walk maxRecursionDepth rootPath recursive flt currentDepth es
      in (fst branch @ fst others, snd branch @ snd others))"

text \<open>
  The files reachable from a directory by descending through at most \<open>levels\<close>
  directories, and the directories at which such a descent is cut off.
\<close>

fun filesWithin :: "nat \<Rightarrow> (string \<Rightarrow> bool) option \<Rightarrow> string \<Rightarrow> fsnode list \<Rightarrow> string list" where
  "filesWithin levels flt dir [] = []"
| "filesWithin levels flt dir (FileNode name # es) =
     (if keeps flt name then [Join [dir, name]] else []) @ filesWithin levels flt dir es"
| "filesWithin 0 flt dir (DirNode name cs # es) = filesWithin 0 flt dir es"
| "filesWithin (Suc levels) flt dir (DirNode name cs # es) =
     filesWithin levels flt (Join [dir, name]) cs @ filesWithin (Suc levels) flt dir es"

fun truncatedBranches :: "nat \<Rightarrow> string \<Rightarrow> fsnode list \<Rightarrow> string list" where
  "truncatedBranches levels dir [] = []"
| "truncatedBranches levels dir (FileNode name # es) = truncatedBranches levels dir es"
| "truncatedBranches 0 dir (DirNode name cs # es) =
     Join [dir, name] # truncatedBranches 0 dir es"
| "truncatedBranches (Suc levels) dir (DirNode name cs # es) =
     truncatedBranches levels (Join [dir, name]) cs @ truncatedBranches (Suc levels) dir es"

text \<open>All files of a tree, whatever their depth.\<close>

fun allFiles :: "(string \<Rightarrow> bool) option \<Rightarrow> string \<Rightarrow> fsnode list \<Rightarrow> string list" where
  "allFiles flt dir [] = []"
| "allFiles flt dir (FileNode name # es) =
     (if keeps flt name then [Join [dir, name]] else []) @ allFiles flt dir es"
| "allFiles flt dir (DirNode name cs # es) =
     allFiles flt (Join [dir, name]) cs @ allFiles flt dir es"


section \<open>Example hosts\<close>

text \<open>
  A node with no process in its table and none of the files: every helper reports
  failure. The examples below add processes and files to it.
\<close>

definition noSuchFile :: go_error where
  "noSuchFile = OtherError ''no such file or directory''"

definition bareHost :: host where
  "bareHost =
     \<lparr>HostFileSystemDefaultLocation = ''/host'',
      procs = [],
      makeHostFileInfo = (\<lambda>path readContent. (None, Some noSuchFile)),
      makeHostFileInfoVerbose = (\<lambda>path readContent. None),
      makeHostDirFilesInfo = (\<lambda>dir recursive depth. (None, Some noSuchFile)),
      makeContaineredFileInfo = (\<lambda>path readContent p. (None, Some noSuchFile)),
      getContainerRuntimeCNIPaths = None,
      getKubeletServiceFiles = (\<lambda>pid. ([], Some noSuchFile)),
      os_Open = (\<lambda>path. Some noSuchFile),
      ReadFileOnHostFileSystem = (\<lambda>path. ([], Some noSuchFile)),
      yaml_Unmarshal = (\<lambda>content. ([], Some (OtherError ''yaml: not a document'')))\<rparr>"

definition plainFile :: "string \<Rightarrow> FileInfo" where
  "plainFile path =
     \<lparr>Path = path, Content = None, Ownership = (0, 0), Permission = 420,
      IsDirectory = False\<rparr>"

definition etcdProcess :: "string list \<Rightarrow> ProcessDetails" where
  "etcdProcess args =
     \<lparr>PID = 812, ExecutablePath = ''/usr/local/bin/etcd'', Cmdline = ''etcd'' # args\<rparr>"

definition apiServerProcess :: "string list \<Rightarrow> ProcessDetails" where
  "apiServerProcess cmdline =
     \<lparr>PID = 901, ExecutablePath = ''/usr/local/bin/kube-apiserver'', Cmdline = cmdline\<rparr>"

definition kubeletProcess :: "string list \<Rightarrow> ProcessDetails" where
  "kubeletProcess args =
     \<lparr>PID = 640, ExecutablePath = ''/usr/bin/kubelet'', Cmdline = ''/usr/bin/kubelet'' # args\<rparr>"

text \<open>
  An etcd member that runs no API server: the etcd manifest and the PKI directory are
  there, but no API server process.
\<close>

definition etcdOnlyHost :: host where
  "etcdOnlyHost =
     bareHost
       \<lparr>procs := [etcdProcess [''--data-dir=/var/lib/etcd''], kubeletProcess []],
        makeHostFileInfoVerbose :=
          (\<lambda>path readContent.
             if path = etcdConfigPath \<or> path = pkiDir then Some (plainFile path) else None)\<rparr>"

text \<open>
  A worker node whose kubelet holds both \<^verbatim>\<open>/var/lib/kubelet/config.yaml\<close> and
  \<^verbatim>\<open>/etc/kubernetes/kubelet.conf\<close>; the kubelet's arguments are given. The configuration
  can be read and decoded, and names \<^verbatim>\<open>/etc/kubernetes/pki/ca.crt\<close> as its client CA
  file, which does not exist.
\<close>

definition kubeletConfigYaml :: string where
  "kubeletConfigYaml = ''authentication: {x509: {clientCAFile: /etc/kubernetes/pki/ca.crt}}''"

definition kubeletHost :: "string list \<Rightarrow> host" where
  "kubeletHost args =
     bareHost
       \<lparr>procs := [kubeletProcess args],
        makeHostFileInfo :=
          (\<lambda>path readContent.
             if path = kubeletConfigDefaultPath
             then (Some ((plainFile path)
                     \<lparr>Content := (if readContent then Some kubeletConfigYaml else None)\<rparr>),
                   None)
             else if path = kubeletKubeConfigDefaultPath then (Some (plainFile path), None)
             else (None, Some noSuchFile)),
        yaml_Unmarshal :=
          (\<lambda>content.
             if content = kubeletConfigYaml
             then ([(''authentication'',
                     YMap [(''x509'',
                       YMap [(''clientCAFile'', YString ''/etc/kubernetes/pki/ca.crt'')])])],
                   None)
             else ([], Some (OtherError ''yaml: not a document'')))\<rparr>"

text \<open>
  A file system that holds exactly the given paths, each a regular file owned by root
  with mode 0644.
\<close>

definition filesystemWith :: "string list \<Rightarrow> filesystem" where
  "filesystemWith present =
     (\<lambda>path.
        if path \<in> set present
        then Inr \<lparr>st_uid = 0, st_gid = 0, st_mode = 420, st_isDir = False,
                  st_bytes = Some ''content''\<rparr>
        else Inl NotExist)"

text \<open>
  The directory of the specification's scenario: two files and a subdirectory holding a
  third.
\<close>

definition scenarioDir :: "fsnode list" where
  "scenarioDir =
     [FileNode ''a.txt'', FileNode ''b.txt'', DirNode ''sub'' [FileNode ''c.txt'']]"

section \<open>Path resolution\<close>

lemma splitSlash_nonempty: "splitSlash s \<noteq> []"
  by (induction s) (auto split: list.splits)

lemma splitSlash_append:
  "splitSlash (a @ CHR ''/'' # b) = splitSlash a @ splitSlash b"
proof (induction a)
  case Nil
  show ?case by simp
next
  case (Cons c a)
  obtain w ws where "splitSlash a = w # ws"
    using splitSlash_nonempty [of a] by (cases "splitSlash a") auto
  with Cons show ?case by simp
qed

lemma foldl_cleanStep_plain:
  "''..'' \<notin> set es \<Longrightarrow>
   foldl (cleanStep r) out es = rev (filter (\<lambda>e. e \<noteq> [] \<and> e \<noteq> ''.'') es) @ out"
  by (induction es arbitrary: out) (auto simp: cleanStep_def)

lemma cleanElems_append_plain:
  "''..'' \<notin> set es \<Longrightarrow>
   cleanElems r (ds @ es) = cleanElems r ds @ filter (\<lambda>e. e \<noteq> [] \<and> e \<noteq> ''.'') es"
  by (simp add: cleanElems_def foldl_cleanStep_plain)

lemma strings_Join_append:
  "A \<noteq> [] \<Longrightarrow> B \<noteq> [] \<Longrightarrow>
   strings_Join (A @ B) sep = strings_Join A sep @ sep # strings_Join B sep"
proof (induction A sep rule: strings_Join.induct)
  case (1 sep)
  then show ?case by simp
next
  case (2 e sep)
  then show ?case by (cases B) auto
next
  case (3 e v va sep)
  then show ?case by simp
qed

lemma Join_two:
  "hostRoot \<noteq> [] \<Longrightarrow> Join [hostRoot, p] = Clean (hostRoot @ CHR ''/'' # p)"
  by (simp add: Join_def joinSlash_def)

lemma Clean_rooted:
  "p \<noteq> [] \<Longrightarrow> hd p = CHR ''/'' \<Longrightarrow>
   Clean p = CHR ''/'' # joinSlash (cleanElems True (splitSlash p))"
  by (simp add: Clean_def)

lemma isDescendant_rooted:
  "isDescendant (CHR ''/'' # joinSlash A) (CHR ''/'' # joinSlash (A @ B))"
proof (cases "A = [] \<or> B = []")
  case True
  then show ?thesis by (auto simp: isDescendant_def joinSlash_def)
next
  case False
  then have "joinSlash (A @ B) = joinSlash A @ CHR ''/'' # joinSlash B"
    by (simp add: joinSlash_def strings_Join_append)
  then show ?thesis by (simp add: isDescendant_def)
qed

lemma Resolve_plain_contained:
  assumes "hostRoot \<noteq> []" and "hd hostRoot = CHR ''/''"
    and "''..'' \<notin> set (splitSlash logicalPath)"
  shows "isDescendant (Clean hostRoot) (Resolve hostRoot logicalPath)"
proof -
  let ?A = "cleanElems True (splitSlash hostRoot)"
  let ?B = "filter (\<lambda>e. e \<noteq> [] \<and> e \<noteq> ''.'') (splitSlash logicalPath)"
  have root: "Clean hostRoot = CHR ''/'' # joinSlash ?A"
    using assms by (simp add: Clean_rooted)
  have "Resolve hostRoot logicalPath = Clean (hostRoot @ CHR ''/'' # logicalPath)"
    using assms by (simp add: Resolve_def Join_two)
  also have "\<dots> =
      CHR ''/'' # joinSlash (cleanElems True (splitSlash (hostRoot @ CHR ''/'' # logicalPath)))"
    using assms by (simp add: Clean_rooted)
  also have "\<dots> = CHR ''/'' # joinSlash (?A @ ?B)"
    using assms by (simp add: splitSlash_append cleanElems_append_plain)
  finally show ?thesis
    using root isDescendant_rooted by simp
qed

text \<open>
  C1 (as the code has it). Resolving a logical path is
  \<^verbatim>\<open>path.Join(HostFileSystemDefaultLocation, logicalPath)\<close>: the host root, a slash and the
  logical path, cleaned. It returns a path for every input; there is no \<open>InvalidPath\<close>
  failure. The result stays a descendant of the cleaned host root whenever the host root
  is rooted and the logical path has no \<^verbatim>\<open>..\<close> element; nothing is checked when it has
  one.
\<close>

theorem Resolve_joins_cleans_unchecked:
  "(hostRoot \<noteq> [] \<longrightarrow>
      Resolve hostRoot logicalPath = Clean (hostRoot @ ''/'' @ logicalPath)) \<and>
   (hostRoot \<noteq> [] \<and> hd hostRoot = CHR ''/'' \<and> ''..'' \<notin> set (splitSlash logicalPath) \<longrightarrow>
      isDescendant (Clean hostRoot) (Resolve hostRoot logicalPath))"
  using Resolve_plain_contained [of hostRoot logicalPath]
  by (simp add: Resolve_def Join_two)

theorem Resolve_joins_cleans_unchecked_witness:
  "''..'' \<notin> set (splitSlash ''/etc/kubelet.conf'') \<and>
   Resolve ''/host'' ''/etc/kubelet.conf'' = ''/host/etc/kubelet.conf'' \<and>
   isDescendant ''/host'' ''/host/etc/kubelet.conf''"
proof -
  have resolved: "Resolve ''/host'' ''/etc/kubelet.conf'' = ''/host/etc/kubelet.conf''"
    by (simp add: Resolve_def Join_def Clean_def cleanElems_def cleanStep_def joinSlash_def)
  have root: "Clean ''/host'' = ''/host''"
    by (simp add: Clean_def cleanElems_def cleanStep_def joinSlash_def)
  have plain: "''..'' \<notin> set (splitSlash ''/etc/kubelet.conf'')"
    by simp
  have rooted: "''/host'' \<noteq> [] \<and> hd ''/host'' = CHR ''/''"
    by simp
  from Resolve_joins_cleans_unchecked [of "''/host''" "''/etc/kubelet.conf''"] plain rooted
  have "isDescendant (Clean ''/host'') (Resolve ''/host'' ''/etc/kubelet.conf'')"
    by blast
  with resolved root plain show ?thesis
    by simp
qed

text \<open>
  C1 (as stated) fails: with host root \<^verbatim>\<open>/host\<close> the logical path \<^verbatim>\<open>/../etc/shadow\<close> is
  resolved to \<^verbatim>\<open>/etc/shadow\<close>, which is not a descendant of the host root, and no error
  is raised.
\<close>

theorem Resolve_escapes_host_root:
  "Resolve ''/host'' ''/../etc/shadow'' = ''/etc/shadow'' \<and>
   \<not> isDescendant ''/host'' (Resolve ''/host'' ''/../etc/shadow'')"
  by (simp add: Resolve_def Join_def Clean_def cleanElems_def cleanStep_def joinSlash_def
      isDescendant_def)

section \<open>Command-line arguments\<close>

lemma GetArg_tokens_skip:
  "name \<notin> set pre \<Longrightarrow> \<forall>t\<in>set pre. \<not> prefix (name @ ''='') t \<Longrightarrow>
   GetArg_tokens (pre @ ts) name = GetArg_tokens ts name"
  by (induction pre) auto

lemma GetArg_tokens_not_found:
  "\<not> snd (GetArg_tokens ts name) \<Longrightarrow> GetArg_tokens ts name = ([], False)"
  by (induction ts) (auto split: if_splits)

lemma separate_form_Cons:
  "(\<exists>pre v rest. t # ts = pre @ name # v # rest) \<longleftrightarrow>
   (t = name \<and> ts \<noteq> []) \<or> (\<exists>pre v rest. ts = pre @ name # v # rest)"
proof
  assume "\<exists>pre v rest. t # ts = pre @ name # v # rest"
  then obtain pre v rest where eq: "t # ts = pre @ name # v # rest" by blast
  show "(t = name \<and> ts \<noteq> []) \<or> (\<exists>pre v rest. ts = pre @ name # v # rest)"
  proof (cases pre)
    case Nil
    with eq show ?thesis by auto
  next
    case (Cons a pre')
    with eq have "ts = pre' @ name # v # rest" by simp
    then show ?thesis by blast
  qed
next
  assume r: "(t = name \<and> ts \<noteq> []) \<or> (\<exists>pre v rest. ts = pre @ name # v # rest)"
  then show "\<exists>pre v rest. t # ts = pre @ name # v # rest"
  proof
    assume a: "t = name \<and> ts \<noteq> []"
    then obtain v rest where "ts = v # rest" by (cases ts) auto
    with a have "t # ts = [] @ name # v # rest" by simp
    then show ?thesis by blast
  next
    assume "\<exists>pre v rest. ts = pre @ name # v # rest"
    then obtain pre v rest where "ts = pre @ name # v # rest" by blast
    then have "t # ts = (t # pre) @ name # v # rest" by simp
    then show ?thesis by blast
  qed
qed

lemma GetArg_tokens_found_iff:
  "snd (GetArg_tokens ts name) \<longleftrightarrow>
   (\<exists>pre v rest. ts = pre @ name # v # rest) \<or> (\<exists>t\<in>set ts. prefix (name @ ''='') t)"
proof (induction ts)
  case Nil
  show ?case by simp
next
  case (Cons t ts)
  show ?case
    unfolding separate_form_Cons using Cons.IH by auto
qed


text \<open>
  C5. \<^verbatim>\<open>GetArg(name)\<close> returns the value with found = true both for a token equal to
  \<open>name\<close> followed by a value token and for a single token \<open>name=value\<close> (the first
  such token of the command line decides), it finds a value exactly when one of the two
  forms is present, and it returns the empty string with found = false otherwise.
\<close>

theorem GetArg_separate_and_inline_forms:
  "(Cmdline p = pre @ name # v # rest \<and> name \<notin> set pre \<and>
      (\<forall>t\<in>set pre. \<not> prefix (name @ ''='') t) \<longrightarrow> GetArg p name = (v, True)) \<and>
   (Cmdline p = pre @ (name @ ''='' @ v) # rest \<and> name \<notin> set pre \<and>
      (\<forall>t\<in>set pre. \<not> prefix (name @ ''='') t) \<longrightarrow> GetArg p name = (v, True)) \<and>
   (snd (GetArg p name) \<longleftrightarrow>
      (\<exists>pre v rest. Cmdline p = pre @ name # v # rest) \<or>
      (\<exists>t\<in>set (Cmdline p). prefix (name @ ''='') t)) \<and>
   (\<not> snd (GetArg p name) \<longrightarrow> GetArg p name = ([], False))"
proof (intro conjI impI)
  assume "Cmdline p = pre @ name # v # rest \<and> name \<notin> set pre \<and>
      (\<forall>t\<in>set pre. \<not> prefix (name @ ''='') t)"
  then show "GetArg p name = (v, True)"
    by (simp add: GetArg_def GetArg_tokens_skip)
next
  assume "Cmdline p = pre @ (name @ ''='' @ v) # rest \<and> name \<notin> set pre \<and>
      (\<forall>t\<in>set pre. \<not> prefix (name @ ''='') t)"
  then show "GetArg p name = (v, True)"
    by (simp add: GetArg_def GetArg_tokens_skip)
next
  show "snd (GetArg p name) \<longleftrightarrow>
      (\<exists>pre v rest. Cmdline p = pre @ name # v # rest) \<or>
      (\<exists>t\<in>set (Cmdline p). prefix (name @ ''='') t)"
    unfolding GetArg_def by (rule GetArg_tokens_found_iff)
next
  assume "\<not> snd (GetArg p name)"
  then show "GetArg p name = ([], False)"
    by (simp add: GetArg_def GetArg_tokens_not_found)
qed

theorem GetArg_separate_and_inline_forms_witness:
  "GetArg \<lparr>PID = 1, ExecutablePath = ''/usr/bin/kubelet'', Cmdline = [''--config'', ''/a/b'']\<rparr>
     ''--config'' = (''/a/b'', True) \<and>
   GetArg \<lparr>PID = 1, ExecutablePath = ''/usr/bin/kubelet'', Cmdline = [''--config=/a/b'']\<rparr>
     ''--config'' = (''/a/b'', True) \<and>
   GetArg \<lparr>PID = 1, ExecutablePath = ''/usr/bin/kubelet'', Cmdline = [''--v=2'', ''--config'']\<rparr>
     ''--config'' = ([], False)"
proof -
  let ?sep = "\<lparr>PID = 1, ExecutablePath = ''/usr/bin/kubelet'', Cmdline = [''--config'', ''/a/b'']\<rparr>"
  let ?inl = "\<lparr>PID = 1, ExecutablePath = ''/usr/bin/kubelet'', Cmdline = [''--config=/a/b'']\<rparr>"
  let ?none = "\<lparr>PID = 1, ExecutablePath = ''/usr/bin/kubelet'', Cmdline = [''--v=2'', ''--config'']\<rparr>"
  have "GetArg ?sep ''--config'' = (''/a/b'', True)"
    using GetArg_separate_and_inline_forms [of ?sep "[]" "''--config''" "''/a/b''" "[]"]
    by simp
  moreover have "GetArg ?inl ''--config'' = (''/a/b'', True)"
    using GetArg_separate_and_inline_forms [of ?inl "[]" "''--config''" "''/a/b''" "[]"]
    by simp
  moreover have "\<not> snd (GetArg ?none ''--config'')"
    by (simp add: GetArg_def)
  then have "GetArg ?none ''--config'' = ([], False)"
    using GetArg_separate_and_inline_forms [of ?none "[]" "''--config''" "[]" "[]"]
    by blast
  ultimately show ?thesis by simp
qed

section \<open>The etcd data directory\<close>

lemma Errorf_is_not_ErrDataDirNotFound: "Errorf msg err \<noteq> ErrDataDirNotFound"
  by simp

text \<open>
  C10. \<^verbatim>\<open>getEtcdDataDir\<close> returns \<open>ErrDataDirNotFound\<close> exactly when an etcd process is
  located and its command line has no \<^verbatim>\<open>--data-dir\<close> argument or an empty value for it;
  when no etcd process is located it returns the locate error wrapped by \<^verbatim>\<open>fmt.Errorf\<close>,
  which is another error; and a non-empty value is returned with a nil error.
\<close>

theorem getEtcdDataDir_results:
  "(snd (getEtcdDataDir h) = Some ErrDataDirNotFound \<longleftrightarrow>
      (\<exists>proc. LocateProcessByExecSuffix h etcdExe = Inr proc \<and>
         (\<not> snd (GetArg proc etcdDataDirArg) \<or> fst (GetArg proc etcdDataDirArg) = []))) \<and>
   (LocateProcessByExecSuffix h etcdExe = Inl err \<longrightarrow>
      getEtcdDataDir h = ([], Some (Errorf ''failed to locate kube-proxy process: %w'' err)) \<and>
      snd (getEtcdDataDir h) \<noteq> Some ErrDataDirNotFound) \<and>
   (LocateProcessByExecSuffix h etcdExe = Inr proc \<and>
      GetArg proc etcdDataDirArg = (dataDir, True) \<and> dataDir \<noteq> [] \<longrightarrow>
      getEtcdDataDir h = (dataDir, None))"
proof (intro conjI impI)
  show "snd (getEtcdDataDir h) = Some ErrDataDirNotFound \<longleftrightarrow>
      (\<exists>proc. LocateProcessByExecSuffix h etcdExe = Inr proc \<and>
         (\<not> snd (GetArg proc etcdDataDirArg) \<or> fst (GetArg proc etcdDataDirArg) = []))"
  proof (cases "LocateProcessByExecSuffix h etcdExe")
    case (Inl e)
    then show ?thesis by (simp add: getEtcdDataDir_def)
  next
    case (Inr proc)
    then show ?thesis
      by (cases "GetArg proc etcdDataDirArg") (simp add: getEtcdDataDir_def)
  qed
next
  assume "LocateProcessByExecSuffix h etcdExe = Inl err"
  then show "getEtcdDataDir h =
      ([], Some (Errorf ''failed to locate kube-proxy process: %w'' err))"
    by (simp add: getEtcdDataDir_def)
next
  assume "LocateProcessByExecSuffix h etcdExe = Inl err"
  then show "snd (getEtcdDataDir h) \<noteq> Some ErrDataDirNotFound"
    by (simp add: getEtcdDataDir_def)
next
  assume "LocateProcessByExecSuffix h etcdExe = Inr proc \<and>
      GetArg proc etcdDataDirArg = (dataDir, True) \<and> dataDir \<noteq> []"
  then show "getEtcdDataDir h = (dataDir, None)"
    by (simp add: getEtcdDataDir_def)
qed

lemma etcd_located:
  "LocateProcessByExecSuffix (bareHost\<lparr>procs := [etcdProcess args]\<rparr>) etcdExe =
   Inr (etcdProcess args)"
  by (simp add: LocateProcessByExecSuffix_def etcdProcess_def etcdExe_def suffix_def)

lemma bareHost_locates_nothing: "LocateProcessByExecSuffix bareHost exe = Inl ProcessNotFound"
  by (simp add: LocateProcessByExecSuffix_def bareHost_def)

theorem getEtcdDataDir_results_witness:
  "getEtcdDataDir (bareHost\<lparr>procs := [etcdProcess [''--data-dir=/var/lib/etcd'']]\<rparr>) =
     (''/var/lib/etcd'', None) \<and>
   snd (getEtcdDataDir (bareHost\<lparr>procs := [etcdProcess [''--name=node1'']]\<rparr>)) =
     Some ErrDataDirNotFound \<and>
   getEtcdDataDir bareHost =
     ([], Some (Errorf ''failed to locate kube-proxy process: %w'' ProcessNotFound))"
proof -
  let ?with = "bareHost\<lparr>procs := [etcdProcess [''--data-dir=/var/lib/etcd'']]\<rparr>"
  let ?without = "bareHost\<lparr>procs := [etcdProcess [''--name=node1'']]\<rparr>"
  have "GetArg (etcdProcess [''--data-dir=/var/lib/etcd'']) etcdDataDirArg =
      (''/var/lib/etcd'', True)"
    by (simp add: GetArg_def etcdProcess_def etcdDataDirArg_def)
  then have "getEtcdDataDir ?with = (''/var/lib/etcd'', None)"
    using getEtcdDataDir_results
      [where h = ?with and proc = "etcdProcess [''--data-dir=/var/lib/etcd'']"
         and dataDir = "''/var/lib/etcd''"] etcd_located
    by simp
  moreover have "\<not> snd (GetArg (etcdProcess [''--name=node1'']) etcdDataDirArg)"
    by (simp add: GetArg_def etcdProcess_def etcdDataDirArg_def)
  then have "snd (getEtcdDataDir ?without) = Some ErrDataDirNotFound"
    using getEtcdDataDir_results [where h = ?without] etcd_located by blast
  moreover have "getEtcdDataDir bareHost =
      ([], Some (Errorf ''failed to locate kube-proxy process: %w'' ProcessNotFound))"
    using getEtcdDataDir_results [where h = bareHost and err = ProcessNotFound]
      bareHost_locates_nothing
    by blast
  ultimately show ?thesis by simp
qed

section \<open>Process information\<close>

lemma processFile_None_iff:
  "processFile h path = None \<longleftrightarrow> path = [] \<or> makeHostFileInfoVerbose h path False = None"
  by (simp add: processFile_def)

text \<open>
  C7. \<^verbatim>\<open>makeProcessInfoVerbose\<close> returns nil exactly when the assembled record equals the
  zero value, that is when no file information was found for the specs, config,
  kubeconfig and client-CA paths (the path is empty or its file information is nil) and
  the command line is empty (no process, or an empty raw command line). Otherwise it
  returns the assembled record; a located process with a non-empty command line alone
  is enough.
\<close>

theorem makeProcessInfoVerbose_nil_iff_zero:
  "(makeProcessInfoVerbose h p specsPath configPath kubeConfigPath clientCaPath = None \<longleftrightarrow>
      (specsPath = [] \<or> makeHostFileInfoVerbose h specsPath False = None) \<and>
      (configPath = [] \<or> makeHostFileInfoVerbose h configPath False = None) \<and>
      (kubeConfigPath = [] \<or> makeHostFileInfoVerbose h kubeConfigPath False = None) \<and>
      (clientCaPath = [] \<or> makeHostFileInfoVerbose h clientCaPath False = None) \<and>
      (case p of None \<Rightarrow> True | Some pd \<Rightarrow> RawCmd pd = [])) \<and>
   (makeProcessInfoVerbose h p specsPath configPath kubeConfigPath clientCaPath \<noteq> None \<longrightarrow>
      makeProcessInfoVerbose h p specsPath configPath kubeConfigPath clientCaPath =
        Some \<lparr>SpecsFile = processFile h specsPath,
              ConfigFile = processFile h configPath,
              KubeConfigFile = processFile h kubeConfigPath,
              ClientCAFile = processFile h clientCaPath,
              CmdLine = (case p of None \<Rightarrow> [] | Some pd \<Rightarrow> RawCmd pd)\<rparr>) \<and>
   (p = Some pd \<and> RawCmd pd \<noteq> [] \<longrightarrow>
      (\<exists>info. makeProcessInfoVerbose h p specsPath configPath kubeConfigPath clientCaPath =
         Some info \<and> CmdLine info = RawCmd pd))"
proof (intro conjI)
  show "makeProcessInfoVerbose h p specsPath configPath kubeConfigPath clientCaPath = None \<longleftrightarrow>
      (specsPath = [] \<or> makeHostFileInfoVerbose h specsPath False = None) \<and>
      (configPath = [] \<or> makeHostFileInfoVerbose h configPath False = None) \<and>
      (kubeConfigPath = [] \<or> makeHostFileInfoVerbose h kubeConfigPath False = None) \<and>
      (clientCaPath = [] \<or> makeHostFileInfoVerbose h clientCaPath False = None) \<and>
      (case p of None \<Rightarrow> True | Some pd \<Rightarrow> RawCmd pd = [])"
    unfolding processFile_None_iff [symmetric]
    by (cases p) (auto simp: makeProcessInfoVerbose_def K8sProcessInfo_zero_def Let_def)
next
  show "makeProcessInfoVerbose h p specsPath configPath kubeConfigPath clientCaPath \<noteq> None \<longrightarrow>
      makeProcessInfoVerbose h p specsPath configPath kubeConfigPath clientCaPath =
        Some \<lparr>SpecsFile = processFile h specsPath,
              ConfigFile = processFile h configPath,
              KubeConfigFile = processFile h kubeConfigPath,
              ClientCAFile = processFile h clientCaPath,
              CmdLine = (case p of None \<Rightarrow> [] | Some pd \<Rightarrow> RawCmd pd)\<rparr>"
    by (simp add: makeProcessInfoVerbose_def Let_def)
next
  show "p = Some pd \<and> RawCmd pd \<noteq> [] \<longrightarrow>
      (\<exists>info. makeProcessInfoVerbose h p specsPath configPath kubeConfigPath clientCaPath =
         Some info \<and> CmdLine info = RawCmd pd)"
    by (auto simp: makeProcessInfoVerbose_def K8sProcessInfo_zero_def Let_def)
qed

theorem makeProcessInfoVerbose_nil_iff_zero_witness:
  "makeProcessInfoVerbose bareHost None apiServerSpecsPath [] [] [] = None \<and>
   makeProcessInfoVerbose bareHost (Some (apiServerProcess [''kube-apiserver'', ''--v=2'']))
       apiServerSpecsPath [] [] [] =
     Some \<lparr>SpecsFile = None, ConfigFile = None, KubeConfigFile = None, ClientCAFile = None,
           CmdLine = ''kube-apiserver --v=2''\<rparr>"
proof -
  let ?pd = "apiServerProcess [''kube-apiserver'', ''--v=2'']"
  have nofile: "makeHostFileInfoVerbose bareHost apiServerSpecsPath False = None"
    by (simp add: bareHost_def)
  have cmd: "RawCmd ?pd = ''kube-apiserver --v=2''"
    by (simp add: RawCmd_def apiServerProcess_def)
  have path: "apiServerSpecsPath \<noteq> []"
    by (simp add: apiServerSpecsPath_def)
  have "makeProcessInfoVerbose bareHost None apiServerSpecsPath [] [] [] = None"
    using makeProcessInfoVerbose_nil_iff_zero
      [where h = bareHost and p = None and specsPath = apiServerSpecsPath
         and configPath = "[]" and kubeConfigPath = "[]" and clientCaPath = "[]"]
      nofile
    by simp
  moreover have "makeProcessInfoVerbose bareHost (Some ?pd) apiServerSpecsPath [] [] [] \<noteq> None"
    using makeProcessInfoVerbose_nil_iff_zero
      [where h = bareHost and p = "Some ?pd" and specsPath = apiServerSpecsPath
         and configPath = "[]" and kubeConfigPath = "[]" and clientCaPath = "[]"]
      cmd
    by simp
  then have "makeProcessInfoVerbose bareHost (Some ?pd) apiServerSpecsPath [] [] [] =
      Some \<lparr>SpecsFile = None, ConfigFile = None, KubeConfigFile = None, ClientCAFile = None,
            CmdLine = ''kube-apiserver --v=2''\<rparr>"
    using makeProcessInfoVerbose_nil_iff_zero
      [where h = bareHost and p = "Some ?pd" and specsPath = apiServerSpecsPath
         and configPath = "[]" and kubeConfigPath = "[]" and clientCaPath = "[]"]
      nofile cmd path
    by (simp add: processFile_def)
  ultimately show ?thesis by simp
qed

section \<open>The SELinux status\<close>

text \<open>
  C8. \<^verbatim>\<open>getSELinuxStatus\<close> reads the content of no file but the AppArmor profiles file
  (the SELinux configuration file is only opened). It returns \<^verbatim>\<open>not found\<close> when
  \<^verbatim>\<open>/etc/selinux/semanage.conf\<close> cannot be opened under the host root; otherwise it
  returns the content of \<^verbatim>\<open>/sys/kernel/security/apparmor/profiles\<close> when that read
  succeeds with non-empty content, and \<^verbatim>\<open>not found\<close> in every other case.
\<close>

theorem getSELinuxStatus_returns_apparmor_profiles:
  "(\<forall>path. ReadFile path \<in> set (snd (getSELinuxStatus h)) \<longrightarrow>
      path = appArmorProfilesFileName) \<and>
   (os_Open h (Join [HostFileSystemDefaultLocation h, seLinuxConfigFileName]) \<noteq> None \<longrightarrow>
      getSELinuxStatus h =
        (''not found'',
         [OsOpen (Join [HostFileSystemDefaultLocation h, seLinuxConfigFileName])])) \<and>
   (os_Open h (Join [HostFileSystemDefaultLocation h, seLinuxConfigFileName]) = None \<longrightarrow>
      fst (getSELinuxStatus h) =
        (case ReadFileOnHostFileSystem h appArmorProfilesFileName of
           (content, None) \<Rightarrow> if content \<noteq> [] then content else ''not found''
         | (content, Some err) \<Rightarrow> ''not found''))"
proof (intro conjI allI impI)
  fix path
  assume "ReadFile path \<in> set (snd (getSELinuxStatus h))"
  then show "path = appArmorProfilesFileName"
    by (auto simp: getSELinuxStatus_def Let_def split: option.splits prod.splits)
next
  assume "os_Open h (Join [HostFileSystemDefaultLocation h, seLinuxConfigFileName]) \<noteq> None"
  then show "getSELinuxStatus h =
      (''not found'', [OsOpen (Join [HostFileSystemDefaultLocation h, seLinuxConfigFileName])])"
    by (auto simp: getSELinuxStatus_def Let_def)
next
  assume "os_Open h (Join [HostFileSystemDefaultLocation h, seLinuxConfigFileName]) = None"
  then show "fst (getSELinuxStatus h) =
      (case ReadFileOnHostFileSystem h appArmorProfilesFileName of
         (content, None) \<Rightarrow> if content \<noteq> [] then content else ''not found''
       | (content, Some err) \<Rightarrow> ''not found'')"
    by (auto simp: getSELinuxStatus_def Let_def split: option.splits prod.splits)
qed

lemma seLinuxConfig_under_host:
  "Join [''/host'', seLinuxConfigFileName] = ''/host/etc/selinux/semanage.conf''"
  by (simp add: seLinuxConfigFileName_def Join_def Clean_def cleanElems_def cleanStep_def
      joinSlash_def)

theorem getSELinuxStatus_returns_apparmor_profiles_witness:
  "getSELinuxStatus bareHost = (''not found'', [OsOpen ''/host/etc/selinux/semanage.conf'']) \<and>
   fst (getSELinuxStatus
          (bareHost\<lparr>os_Open := (\<lambda>path. None),
                    ReadFileOnHostFileSystem :=
                      (\<lambda>path. if path = appArmorProfilesFileName
                               then (''docker-default (enforce)'', None)
                               else (''SELINUX=enforcing'', None))\<rparr>)) =
     ''docker-default (enforce)''"
proof -
  let ?h = "bareHost\<lparr>os_Open := (\<lambda>path. None),
      ReadFileOnHostFileSystem :=
        (\<lambda>path. if path = appArmorProfilesFileName
                 then (''docker-default (enforce)'', None)
                 else (''SELINUX=enforcing'', None))\<rparr>"
  have closed: "os_Open bareHost (Join [HostFileSystemDefaultLocation bareHost, seLinuxConfigFileName])
      \<noteq> None"
    by (simp add: bareHost_def)
  have root: "HostFileSystemDefaultLocation bareHost = ''/host''"
    by (simp add: bareHost_def)
  have "getSELinuxStatus bareHost =
      (''not found'', [OsOpen ''/host/etc/selinux/semanage.conf''])"
    using getSELinuxStatus_returns_apparmor_profiles [of bareHost] closed
    by (simp add: root seLinuxConfig_under_host)
  moreover have "fst (getSELinuxStatus ?h) = ''docker-default (enforce)''"
    using getSELinuxStatus_returns_apparmor_profiles [of ?h]
    by simp
  ultimately show ?thesis by simp
qed

section \<open>The control-plane sensor without an API server\<close>

lemma find_Some_member: "find P xs = Some x \<Longrightarrow> x \<in> set xs \<and> P x"
  by (induction xs) (auto split: if_splits)

lemma Locate_succeeds:
  "LocateProcessByExecSuffix h processSuffix = Inr p \<Longrightarrow>
   p \<in> set (procs h) \<and> suffix processSuffix (ExecutablePath p)"
  using find_Some_member [of "\<lambda>p. suffix processSuffix (ExecutablePath p)" "procs h" p]
  by (auto simp: LocateProcessByExecSuffix_def split: option.splits)

lemma Locate_fails_iff:
  "(\<exists>err. LocateProcessByExecSuffix h processSuffix = Inl err) \<longleftrightarrow>
   (\<forall>p\<in>set (procs h). \<not> suffix processSuffix (ExecutablePath p))"
proof (cases "LocateProcessByExecSuffix h processSuffix")
  case (Inl err)
  then show ?thesis
    by (auto simp: LocateProcessByExecSuffix_def find_None_iff split: option.splits)
next
  case (Inr p)
  then show ?thesis
    using Locate_succeeds [of h processSuffix p] by auto
qed

lemma assemble_panics_on_nil_apiserver:
  "LocateProcessByExecSuffix h apiServerExe = Inl err \<Longrightarrow>
   assembleControlPlaneInfo h = Inl NilPointerDereference"
  by (simp add: assembleControlPlaneInfo_def procPointer_def
      makeAPIserverEncryptionProviderConfigFile_def Let_def)

lemma encryptionFile_of_located:
  "\<exists>fi. makeAPIserverEncryptionProviderConfigFile h (Some pd) = Inr fi"
  by (auto simp: makeAPIserverEncryptionProviderConfigFile_def split: prod.splits option.splits)

lemma assemble_returns_with_apiserver:
  assumes "LocateProcessByExecSuffix h apiServerExe = Inr pd"
  shows "\<exists>ret api. assembleControlPlaneInfo h = Inr ret \<and> APIServerInfo ret = Some api"
proof -
  obtain fi where "makeAPIserverEncryptionProviderConfigFile h (Some pd) = Inr fi"
    using encryptionFile_of_located by blast
  with assms show ?thesis
    by (simp add: assembleControlPlaneInfo_def procPointer_def Let_def)
qed

lemma assembled_APIServerInfo:
  "assembleControlPlaneInfo h = Inr ret \<Longrightarrow> \<exists>api. APIServerInfo ret = Some api"
  by (auto simp: assembleControlPlaneInfo_def Let_def split: sum.splits)

text \<open>
  The final test of \<^verbatim>\<open>SenseControlPlaneInfo\<close> (lines 240-257), for the runs that reach it:
  the error \<^verbatim>\<open>not a control plane node\<close> is returned exactly when the nine evidence fields
  are nil, and the assembled record with a nil error otherwise.
\<close>

lemma SenseControlPlaneInfo_final_test:
  assumes "assembleControlPlaneInfo h = Inr ret"
  shows "\<exists>api. APIServerInfo ret = Some api \<and>
     SenseControlPlaneInfo h =
       (if K8sProcessInfo api = None \<and> ControllerManagerInfo ret = None \<and>
           SchedulerInfo ret = None \<and> EtcdConfigFile ret = None \<and> EtcdDataDir ret = None \<and>
           AdminConfigFile ret = None \<and> PKIDIr ret = None \<and> PKIFiles ret = None \<and>
           CNIConfigFiles ret = None
        then Inr (None, Some notAControlPlaneNode)
        else Inr (Some ret, None))"
proof -
  obtain api where "APIServerInfo ret = Some api"
    using assms assembled_APIServerInfo by blast
  with assms show ?thesis
    by (simp add: SenseControlPlaneInfo_def returnControlPlaneInfo_def)
qed

lemma SenseControlPlaneInfo_reaches_final_test_iff:
  "(\<exists>ret. assembleControlPlaneInfo h = Inr ret) \<longleftrightarrow>
   (\<exists>p\<in>set (procs h). suffix apiServerExe (ExecutablePath p))"
proof (cases "LocateProcessByExecSuffix h apiServerExe")
  case (Inl err)
  then have "\<forall>p\<in>set (procs h). \<not> suffix apiServerExe (ExecutablePath p)"
    using Locate_fails_iff [of h apiServerExe] by blast
  with Inl show ?thesis
    using assemble_panics_on_nil_apiserver [of h err] by auto
next
  case (Inr pd)
  then show ?thesis
    using assemble_returns_with_apiserver [of h pd] Locate_succeeds [of h apiServerExe pd]
    by blast
qed

text \<open>
  C2 (what the code does). For every process table in which no executable path ends with
  \<^verbatim>\<open>/kube-apiserver\<close>, the pointer \<open>apiProc\<close> is nil and line 169 hands it to
  \<^verbatim>\<open>makeAPIserverEncryptionProviderConfigFile\<close>, whose first statement dereferences it:
  \<^verbatim>\<open>SenseControlPlaneInfo\<close> panics, returning neither a partial \<^verbatim>\<open>ControlPlaneInfo\<close> nor
  a \<^verbatim>\<open>SenseError\<close>.
\<close>

theorem SenseControlPlaneInfo_panics_without_apiserver:
  assumes "\<forall>p\<in>set (procs h). \<not> suffix apiServerExe (ExecutablePath p)"
  shows "SenseControlPlaneInfo h = Inl NilPointerDereference"
proof -
  obtain err where "LocateProcessByExecSuffix h apiServerExe = Inl err"
    using assms Locate_fails_iff [of h apiServerExe] by blast
  then show ?thesis
    by (simp add: SenseControlPlaneInfo_def assemble_panics_on_nil_apiserver)
qed

theorem SenseControlPlaneInfo_panics_without_apiserver_witness:
  "makeHostFileInfoVerbose etcdOnlyHost etcdConfigPath False = Some (plainFile etcdConfigPath) \<and>
   SenseControlPlaneInfo etcdOnlyHost = Inl NilPointerDereference"
proof -
  have "\<forall>p\<in>set (procs etcdOnlyHost). \<not> suffix apiServerExe (ExecutablePath p)"
    by (simp add: etcdOnlyHost_def etcdProcess_def kubeletProcess_def apiServerExe_def
        suffix_def)
  then have "SenseControlPlaneInfo etcdOnlyHost = Inl NilPointerDereference"
    by (rule SenseControlPlaneInfo_panics_without_apiserver)
  then show ?thesis
    by (simp add: etcdOnlyHost_def)
qed

text \<open>
  C3 (what the code does). On a node with no process and none of the files every
  evidence field is absent (the three process records, the etcd, admin and PKI files, the
  PKI and CNI file lists are nil and no etcd process gives a data directory), yet
  \<^verbatim>\<open>SenseControlPlaneInfo\<close> does not return the error \<^verbatim>\<open>not a control plane node\<close>: it
  panics at line 169, before the final test.
\<close>

theorem SenseControlPlaneInfo_bare_node_no_SenseError:
  "makeProcessInfoVerbose bareHost None apiServerSpecsPath [] [] [] = None \<and>
   makeProcessInfoVerbose bareHost None controllerManagerSpecsPath
     controllerManagerConfigPath [] [] = None \<and>
   makeProcessInfoVerbose bareHost None schedulerSpecsPath schedulerConfigPath [] [] = None \<and>
   makeHostFileInfoVerbose bareHost etcdConfigPath False = None \<and>
   LocateProcessByExecSuffix bareHost etcdExe = Inl ProcessNotFound \<and>
   makeHostFileInfoVerbose bareHost adminConfigPath False = None \<and>
   makeHostFileInfoVerbose bareHost pkiDir False = None \<and>
   fst (makeHostDirFilesInfo bareHost pkiDir True 0) = None \<and>
   getContainerRuntimeCNIPaths bareHost = None \<and>
   SenseControlPlaneInfo bareHost = Inl NilPointerDereference \<and>
   SenseControlPlaneInfo bareHost \<noteq> Inr (None, Some notAControlPlaneNode)"
proof -
  have absent: "LocateProcessByExecSuffix bareHost exe = Inl ProcessNotFound" for exe
    by (simp add: LocateProcessByExecSuffix_def bareHost_def)
  then have "SenseControlPlaneInfo bareHost = Inl NilPointerDereference"
    by (simp add: SenseControlPlaneInfo_def assemble_panics_on_nil_apiserver)
  moreover have "makeProcessInfoVerbose bareHost None specsPath configPath [] [] = None"
    for specsPath configPath
    by (simp add: makeProcessInfoVerbose_def processFile_def K8sProcessInfo_zero_def
        bareHost_def)
  ultimately show ?thesis
    using absent [of etcdExe] by (simp add: bareHost_def)
qed

text \<open>
  The error is returned when the final test is reached with nothing found: an API
  server process with an empty command line on a node with none of the files.
\<close>

lemma SenseControlPlaneInfo_not_a_control_plane_node:
  "SenseControlPlaneInfo (bareHost\<lparr>procs := [apiServerProcess []]\<rparr>) =
   Inr (None, Some notAControlPlaneNode)"
  by (simp add: SenseControlPlaneInfo_def assembleControlPlaneInfo_def
      returnControlPlaneInfo_def procPointer_def LocateProcessByExecSuffix_def
      makeAPIserverEncryptionProviderConfigFile_def makeProcessInfoVerbose_def
      K8sProcessInfo_zero_def processFile_def getEtcdDataDir_def GetArg_def RawCmd_def
      bareHost_def apiServerProcess_def apiServerExe_def controllerManagerExe_def
      schedulerExe_def etcdExe_def suffix_def Let_def)

section \<open>The directory walker\<close>

lemma Walk_not_recursive:
  "Walk maxDepth dir False flt depth es =
   (filesWithin 0 flt dir es, [])"
  by (induction maxDepth dir False flt depth es rule: Walk.induct) (simp_all add: Let_def)

lemma Walk_bounded:
  "Walk maxDepth dir True flt depth es =
   (filesWithin (maxDepth - depth - 1) flt dir es,
    map depthWarning (truncatedBranches (maxDepth - depth - 1) dir es))"
proof (induction maxDepth dir True flt depth es rule: Walk.induct)
  case (1 maxDepth dir flt depth)
  show ?case by simp
next
  case (2 maxDepth dir flt depth name es)
  then show ?case by simp
next
  case (3 maxDepth dir flt depth name cs es)
  show ?case
  proof (cases "maxDepth \<le> depth + 1")
    case True
    then have "maxDepth - depth - 1 = 0" by simp
    with True 3 show ?thesis by (simp add: Let_def)
  next
    case False
    then have k: "maxDepth - depth - 1 = Suc (maxDepth - (depth + 1) - 1)" by simp
    from False 3 show ?thesis
      unfolding k by (simp add: Let_def)
  qed
qed


lemma filesWithin_more_levels:
  "set (filesWithin levels flt dir es) \<subseteq> set (filesWithin (levels + extra) flt dir es)"
proof (induction levels flt dir es rule: filesWithin.induct)
  case (1 levels flt dir)
  show ?case by simp
next
  case (2 levels flt dir name es)
  then show ?case by auto
next
  case (3 flt dir name cs es)
  then show ?case by (cases extra) auto
next
  case (4 levels flt dir name cs es)
  then show ?case by auto
qed

lemma filesWithin_mono:
  "levels \<le> levels' \<Longrightarrow>
   set (filesWithin levels flt dir es) \<subseteq> set (filesWithin levels' flt dir es)"
  using filesWithin_more_levels [of levels flt dir es "levels' - levels"] by simp

lemma filesWithin_allFiles:
  "set (filesWithin levels flt dir es) \<subseteq> set (allFiles flt dir es)"
  by (induction levels flt dir es rule: filesWithin.induct) auto

text \<open>
  C4. For every directory tree and starting depth, the recursive walk returns exactly the
  files reachable by descending through the directories whose depth stays below
  \<open>maxRecursionDepth\<close> (that is \<open>maxRecursionDepth - currentDepth - 1\<close> descents; the
  entries of the root are always listed), and logs exactly one warning for each
  directory at which the descent is cut off. The files of the shallower levels are
  always part of the result, the result holds only files of the tree, a larger bound
  never loses a file, and there is no failure.
\<close>

theorem Walk_returns_files_within_bound:
  "Walk maxRecursionDepth rootPath True flt currentDepth es =
     (filesWithin (maxRecursionDepth - currentDepth - 1) flt rootPath es,
      map depthWarning (truncatedBranches (maxRecursionDepth - currentDepth - 1) rootPath es)) \<and>
   length (snd (Walk maxRecursionDepth rootPath True flt currentDepth es)) =
     length (truncatedBranches (maxRecursionDepth - currentDepth - 1) rootPath es) \<and>
   set (filesWithin 0 flt rootPath es) \<subseteq>
     set (fst (Walk maxRecursionDepth rootPath True flt currentDepth es)) \<and>
   set (fst (Walk maxRecursionDepth rootPath True flt currentDepth es)) \<subseteq>
     set (allFiles flt rootPath es) \<and>
   (maxRecursionDepth \<le> raised \<longrightarrow>
      set (fst (Walk maxRecursionDepth rootPath True flt currentDepth es)) \<subseteq>
      set (fst (Walk raised rootPath True flt currentDepth es)))"
proof (intro conjI impI)
  show "Walk maxRecursionDepth rootPath True flt currentDepth es =
     (filesWithin (maxRecursionDepth - currentDepth - 1) flt rootPath es,
      map depthWarning (truncatedBranches (maxRecursionDepth - currentDepth - 1) rootPath es))"
    by (rule Walk_bounded)
  show "length (snd (Walk maxRecursionDepth rootPath True flt currentDepth es)) =
     length (truncatedBranches (maxRecursionDepth - currentDepth - 1) rootPath es)"
    by (simp add: Walk_bounded)
  show "set (filesWithin 0 flt rootPath es) \<subseteq>
     set (fst (Walk maxRecursionDepth rootPath True flt currentDepth es))"
    by (simp add: Walk_bounded filesWithin_mono)
  show "set (fst (Walk maxRecursionDepth rootPath True flt currentDepth es)) \<subseteq>
     set (allFiles flt rootPath es)"
    by (simp add: Walk_bounded filesWithin_allFiles)
next
  assume "maxRecursionDepth \<le> raised"
  then have "maxRecursionDepth - currentDepth - 1 \<le> raised - currentDepth - 1"
    by simp
  then show "set (fst (Walk maxRecursionDepth rootPath True flt currentDepth es)) \<subseteq>
      set (fst (Walk raised rootPath True flt currentDepth es))"
    by (simp add: Walk_bounded filesWithin_mono)
qed

lemma Join_child: "Join [''d'', ''a.txt''] = ''d/a.txt''" "Join [''d'', ''b.txt''] = ''d/b.txt''"
  "Join [''d'', ''sub''] = ''d/sub''" "Join [''d/sub'', ''c.txt''] = ''d/sub/c.txt''"
  by (simp_all add: Join_def Clean_def cleanElems_def cleanStep_def joinSlash_def)

theorem Walk_returns_files_within_bound_witness:
  "Walk 1 ''d'' True None 0 scenarioDir = ([''d/a.txt'', ''d/b.txt''], [depthWarning ''d/sub'']) \<and>
   Walk 2 ''d'' True None 0 scenarioDir = ([''d/a.txt'', ''d/b.txt'', ''d/sub/c.txt''], []) \<and>
   Walk 10 ''d'' True None 9 scenarioDir = ([''d/a.txt'', ''d/b.txt''], [depthWarning ''d/sub''])"
proof -
  have "Walk 1 ''d'' True None 0 scenarioDir =
      ([''d/a.txt'', ''d/b.txt''], [depthWarning ''d/sub''])"
    using Walk_returns_files_within_bound [of 1 "''d''" None 0 scenarioDir]
    by (simp add: scenarioDir_def keeps_def Join_child)
  moreover have "Walk 2 ''d'' True None 0 scenarioDir =
      ([''d/a.txt'', ''d/b.txt'', ''d/sub/c.txt''], [])"
    using Walk_returns_files_within_bound [of 2 "''d''" None 0 scenarioDir]
    by (simp add: scenarioDir_def keeps_def Join_child numeral_2_eq_2)
  moreover have "Walk 10 ''d'' True None 9 scenarioDir =
      ([''d/a.txt'', ''d/b.txt''], [depthWarning ''d/sub''])"
    using Walk_returns_files_within_bound [of 10 "''d''" None 9 scenarioDir]
    by (simp add: scenarioDir_def keeps_def Join_child)
  ultimately show ?thesis by simp
qed

section \<open>The kubelet sensor's kubeconfig evidence\<close>

lemma GetArg_not_found_empty: "\<not> snd (GetArg kp name) \<Longrightarrow> fst (GetArg kp name) = []"
  by (simp add: GetArg_def GetArg_tokens_not_found)

lemma SenseKubeletInfo_located:
  assumes "LocateKubeletProcess h = Inr kp"
  shows "snd (SenseKubeletInfo h kcArg) =
     serviceFilesInspected h (PID kp) @
     [if snd (GetArg kp kubeletConfigArgName) then fst (GetArg kp kubeletConfigArgName)
      else kubeletConfigDefaultPath,
      if snd (GetArg kp kcArg) then fst (GetArg kp kcArg) else kubeletConfigDefaultPath] @
     (let ca = kubeletCAFilePath h kp
          (fst (makeHostFileInfo h
             (if snd (GetArg kp kubeletConfigArgName) then fst (GetArg kp kubeletConfigArgName)
              else kubeletConfigDefaultPath) True))
      in if ca \<noteq> [] then [ca] else [])"
  using assms by (simp add: SenseKubeletInfo_def Let_def split: prod.splits)

lemma serviceFilesInspected_member:
  "path \<in> set (serviceFilesInspected h pid) \<longleftrightarrow>
   snd (getKubeletServiceFiles h pid) = None \<and> path \<in> set (fst (getKubeletServiceFiles h pid))"
  by (cases "getKubeletServiceFiles h pid")
    (auto simp: serviceFilesInspected_def split: option.splits)

text \<open>
  The client CA path is a given non-empty path exactly when the client-CA argument gives
  it, or the argument is absent and it is extracted, without error, from the content of
  the configuration file that was read.
\<close>

lemma kubeletCAFilePath_eq_iff:
  assumes "path \<noteq> []"
  shows "kubeletCAFilePath h kp configInfo = path \<longleftrightarrow>
     GetArg kp kubeletClientCAArgName = (path, True) \<or>
     (\<not> snd (GetArg kp kubeletClientCAArgName) \<and>
      (\<exists>ci bytes. configInfo = Some ci \<and> Content ci = Some bytes \<and>
         kubeletExtractCAFileFromConf h bytes = (path, None)))"
proof (cases "GetArg kp kubeletClientCAArgName")
  case (Pair caFilePath ok)
  show ?thesis
  proof (cases ok)
    case True
    with Pair show ?thesis
      by (auto simp: kubeletCAFilePath_def split: option.splits)
  next
    case False
    with Pair have empty: "caFilePath = []"
      using GetArg_not_found_empty [of kp kubeletClientCAArgName] by simp
    show ?thesis
    proof (cases "case configInfo of None \<Rightarrow> None | Some ci \<Rightarrow> Content ci")
      case None
      with Pair False empty assms show ?thesis
        by (auto simp: kubeletCAFilePath_def split: option.splits)
    next
      case (Some bytes)
      then obtain ci where ci: "configInfo = Some ci" "Content ci = Some bytes"
        by (auto split: option.splits)
      obtain extracted err where ex: "kubeletExtractCAFileFromConf h bytes = (extracted, err)"
        by (cases "kubeletExtractCAFileFromConf h bytes")
      with Pair False empty assms ci show ?thesis
        by (cases err) (auto simp: kubeletCAFilePath_def)
    qed
  qed
qed

lemma SenseKubeletInfo_kubeconfig_field:
  assumes "LocateKubeletProcess h = Inr kp" and "\<not> snd (GetArg kp kcArg)"
  shows "kubeletKubeConfigFile (fst (fst (SenseKubeletInfo h kcArg))) =
     (case makeHostFileInfo h kubeletConfigDefaultPath False of
        (info, None) \<Rightarrow> info
      | (info, Some err) \<Rightarrow> None)"
  using assms
  by (auto simp: SenseKubeletInfo_def Let_def split: prod.splits option.splits)

lemma kubelet_conf_is_not_the_config_default:
  "kubeletKubeConfigDefaultPath \<noteq> kubeletConfigDefaultPath" "kubeletKubeConfigDefaultPath \<noteq> []"
  by (simp_all add: kubeletKubeConfigDefaultPath_def kubeletConfigDefaultPath_def)

lemma SenseKubeletInfo_inspects_kubelet_conf_iff:
  assumes "LocateKubeletProcess h = Inr kp"
  shows "kubeletKubeConfigDefaultPath \<in> set (snd (SenseKubeletInfo h kcArg)) \<longleftrightarrow>
     (snd (getKubeletServiceFiles h (PID kp)) = None \<and>
      kubeletKubeConfigDefaultPath \<in> set (fst (getKubeletServiceFiles h (PID kp)))) \<or>
     GetArg kp kubeletConfigArgName = (kubeletKubeConfigDefaultPath, True) \<or>
     GetArg kp kcArg = (kubeletKubeConfigDefaultPath, True) \<or>
     GetArg kp kubeletClientCAArgName = (kubeletKubeConfigDefaultPath, True) \<or>
     (\<not> snd (GetArg kp kubeletClientCAArgName) \<and>
      (\<exists>ci bytes.
         fst (makeHostFileInfo h
           (if snd (GetArg kp kubeletConfigArgName) then fst (GetArg kp kubeletConfigArgName)
            else kubeletConfigDefaultPath) True) = Some ci \<and>
         Content ci = Some bytes \<and>
         kubeletExtractCAFileFromConf h bytes = (kubeletKubeConfigDefaultPath, None)))"
proof -
  let ?K = kubeletKubeConfigDefaultPath
  let ?cfg = "if snd (GetArg kp kubeletConfigArgName) then fst (GetArg kp kubeletConfigArgName)
      else kubeletConfigDefaultPath"
  let ?kc = "if snd (GetArg kp kcArg) then fst (GetArg kp kcArg) else kubeletConfigDefaultPath"
  let ?ca = "kubeletCAFilePath h kp (fst (makeHostFileInfo h ?cfg True))"
  have "?K \<in> set (snd (SenseKubeletInfo h kcArg)) \<longleftrightarrow>
      ?K \<in> set (serviceFilesInspected h (PID kp)) \<or> ?K = ?cfg \<or> ?K = ?kc \<or> ?ca = ?K"
    using kubelet_conf_is_not_the_config_default(2)
    by (auto simp: SenseKubeletInfo_located [OF assms] Let_def)
  moreover have "?K = ?cfg \<longleftrightarrow> GetArg kp kubeletConfigArgName = (?K, True)"
    using kubelet_conf_is_not_the_config_default(1)
    by (cases "GetArg kp kubeletConfigArgName") auto
  moreover have "?K = ?kc \<longleftrightarrow> GetArg kp kcArg = (?K, True)"
    using kubelet_conf_is_not_the_config_default(1)
    by (cases "GetArg kp kcArg") auto
  ultimately show ?thesis
    unfolding serviceFilesInspected_member
      kubeletCAFilePath_eq_iff [OF kubelet_conf_is_not_the_config_default(2)]
    by blast
qed


text \<open>
  C9 (as the code has it). When the kubelet is located and its command line carries no
  kubeconfig argument, the \<^verbatim>\<open>KubeConfigFile\<close> evidence is the file information of the
  config-file default path \<^verbatim>\<open>/var/lib/kubelet/config.yaml\<close>, which is inspected. The
  constant \<^verbatim>\<open>kubeletKubeConfigDefaultPath\<close> is never used as a default: when the kubelet
  is located, \<^verbatim>\<open>/etc/kubernetes/kubelet.conf\<close> is inspected exactly when the list of
  service files holds it, or the config, kubeconfig or client-CA argument has it as its
  value, or the client-CA argument is absent and it is the \<^verbatim>\<open>clientCAFile\<close> extracted
  from the content of the configuration file that was read. When the kubelet is not
  located nothing is inspected.
\<close>

theorem SenseKubeletInfo_kubeconfig_default:
  "(LocateKubeletProcess h = Inr kp \<and> \<not> snd (GetArg kp kcArg) \<longrightarrow>
      kubeletKubeConfigFile (fst (fst (SenseKubeletInfo h kcArg))) =
        (case makeHostFileInfo h kubeletConfigDefaultPath False of
           (info, None) \<Rightarrow> info
         | (info, Some err) \<Rightarrow> None) \<and>
      kubeletConfigDefaultPath \<in> set (snd (SenseKubeletInfo h kcArg))) \<and>
   (LocateKubeletProcess h = Inr kp \<longrightarrow>
      (kubeletKubeConfigDefaultPath \<in> set (snd (SenseKubeletInfo h kcArg)) \<longleftrightarrow>
         (snd (getKubeletServiceFiles h (PID kp)) = None \<and>
          kubeletKubeConfigDefaultPath \<in> set (fst (getKubeletServiceFiles h (PID kp)))) \<or>
         GetArg kp kubeletConfigArgName = (kubeletKubeConfigDefaultPath, True) \<or>
         GetArg kp kcArg = (kubeletKubeConfigDefaultPath, True) \<or>
         GetArg kp kubeletClientCAArgName = (kubeletKubeConfigDefaultPath, True) \<or>
         (\<not> snd (GetArg kp kubeletClientCAArgName) \<and>
          (\<exists>ci bytes.
             fst (makeHostFileInfo h
               (if snd (GetArg kp kubeletConfigArgName)
                then fst (GetArg kp kubeletConfigArgName)
                else kubeletConfigDefaultPath) True) = Some ci \<and>
             Content ci = Some bytes \<and>
             kubeletExtractCAFileFromConf h bytes = (kubeletKubeConfigDefaultPath, None))))) \<and>
   (LocateKubeletProcess h = Inl err \<longrightarrow> snd (SenseKubeletInfo h kcArg) = [])"
proof (intro conjI impI)
  assume a: "LocateKubeletProcess h = Inr kp \<and> \<not> snd (GetArg kp kcArg)"
  then show "kubeletKubeConfigFile (fst (fst (SenseKubeletInfo h kcArg))) =
      (case makeHostFileInfo h kubeletConfigDefaultPath False of
         (info, None) \<Rightarrow> info
       | (info, Some err) \<Rightarrow> None)"
    by (simp add: SenseKubeletInfo_kubeconfig_field)
  from a show "kubeletConfigDefaultPath \<in> set (snd (SenseKubeletInfo h kcArg))"
    by (simp add: SenseKubeletInfo_located)
next
  assume "LocateKubeletProcess h = Inr kp"
  then show "kubeletKubeConfigDefaultPath \<in> set (snd (SenseKubeletInfo h kcArg)) \<longleftrightarrow>
      (snd (getKubeletServiceFiles h (PID kp)) = None \<and>
       kubeletKubeConfigDefaultPath \<in> set (fst (getKubeletServiceFiles h (PID kp)))) \<or>
      GetArg kp kubeletConfigArgName = (kubeletKubeConfigDefaultPath, True) \<or>
      GetArg kp kcArg = (kubeletKubeConfigDefaultPath, True) \<or>
      GetArg kp kubeletClientCAArgName = (kubeletKubeConfigDefaultPath, True) \<or>
      (\<not> snd (GetArg kp kubeletClientCAArgName) \<and>
       (\<exists>ci bytes.
          fst (makeHostFileInfo h
            (if snd (GetArg kp kubeletConfigArgName)
             then fst (GetArg kp kubeletConfigArgName)
             else kubeletConfigDefaultPath) True) = Some ci \<and>
          Content ci = Some bytes \<and>
          kubeletExtractCAFileFromConf h bytes = (kubeletKubeConfigDefaultPath, None)))"
    by (rule SenseKubeletInfo_inspects_kubelet_conf_iff)
next
  assume "LocateKubeletProcess h = Inl err"
  then show "snd (SenseKubeletInfo h kcArg) = []"
    by (simp add: SenseKubeletInfo_def)
qed

lemma kubelet_located:
  "LocateKubeletProcess (kubeletHost args) = Inr (kubeletProcess args)"
  by (simp add: LocateKubeletProcess_def LocateProcessByExecSuffix_def kubeletHost_def
      bareHost_def kubeletProcess_def kubeletProcessSuffix_def suffix_def)

lemma kubeletHost_extracts_ca:
  "kubeletExtractCAFileFromConf (kubeletHost args) kubeletConfigYaml =
   (''/etc/kubernetes/pki/ca.crt'', None)"
  by (simp add: kubeletExtractCAFileFromConf_def kubeletHost_def bareHost_def)

theorem SenseKubeletInfo_kubeconfig_default_witness:
  "kubeletKubeConfigFile (fst (fst (SenseKubeletInfo (kubeletHost [''--v=2'']) ''--kubeconfig''))) =
     Some (plainFile kubeletConfigDefaultPath) \<and>
   kubeletKubeConfigDefaultPath \<notin>
     set (snd (SenseKubeletInfo (kubeletHost [''--v=2'']) ''--kubeconfig'')) \<and>
   snd (SenseKubeletInfo (kubeletHost [''--v=2'']) ''--kubeconfig'') =
     [kubeletConfigDefaultPath, kubeletConfigDefaultPath, ''/etc/kubernetes/pki/ca.crt'']"
proof -
  let ?kp = "kubeletProcess [''--v=2'']"
  let ?h = "kubeletHost [''--v=2'']"
  have noarg: "GetArg ?kp name = ([], False)"
    if "name = ''--kubeconfig'' \<or> name = kubeletConfigArgName \<or> name = kubeletClientCAArgName"
    for name
    using that
    by (auto simp: GetArg_def kubeletProcess_def kubeletConfigArgName_def
        kubeletClientCAArgName_def)
  have config: "makeHostFileInfo ?h kubeletConfigDefaultPath readContent =
      (Some ((plainFile kubeletConfigDefaultPath)
         \<lparr>Content := (if readContent then Some kubeletConfigYaml else None)\<rparr>), None)"
    for readContent
    by (simp add: kubeletHost_def bareHost_def)
  have plain: "(plainFile kubeletConfigDefaultPath)\<lparr>Content := None\<rparr> =
      plainFile kubeletConfigDefaultPath"
    by (simp add: plainFile_def)
  have nofiles: "snd (getKubeletServiceFiles ?h (PID ?kp)) = Some noSuchFile"
    "serviceFilesInspected ?h (PID ?kp) = []"
    by (simp_all add: serviceFilesInspected_def kubeletHost_def bareHost_def)
  have other: "''/etc/kubernetes/pki/ca.crt'' \<noteq> kubeletKubeConfigDefaultPath"
    "kubeletKubeConfigDefaultPath \<noteq> []"
    by (simp_all add: kubeletKubeConfigDefaultPath_def)
  note inst = SenseKubeletInfo_kubeconfig_default
    [where h = ?h and kp = ?kp and kcArg = "''--kubeconfig''"]
  have "kubeletKubeConfigFile (fst (fst (SenseKubeletInfo ?h ''--kubeconfig''))) =
      Some (plainFile kubeletConfigDefaultPath)"
    using inst kubelet_located [of "[''--v=2'']"] noarg config [of False] plain by simp
  moreover have "kubeletKubeConfigDefaultPath \<notin> set (snd (SenseKubeletInfo ?h ''--kubeconfig''))"
    using inst kubelet_located [of "[''--v=2'']"] noarg nofiles(1) config [of True]
      kubeletHost_extracts_ca [of "[''--v=2'']"] other
    by auto
  moreover have "snd (SenseKubeletInfo ?h ''--kubeconfig'') =
      [kubeletConfigDefaultPath, kubeletConfigDefaultPath, ''/etc/kubernetes/pki/ca.crt'']"
    using noarg nofiles(2) config [of True] kubeletHost_extracts_ca [of "[''--v=2'']"]
    by (simp add: SenseKubeletInfo_located [OF kubelet_located] kubeletCAFilePath_def)
  ultimately show ?thesis by simp
qed

text \<open>
  C9 (as stated) fails: \<^verbatim>\<open>/etc/kubernetes/kubelet.conf\<close> is inspected whenever the
  command line names it, with a kubeconfig argument (as kubeadm starts the kubelet) or,
  with no kubeconfig argument, through the config argument.
\<close>

theorem SenseKubeletInfo_inspects_kubelet_conf:
  "kubeletKubeConfigDefaultPath \<in>
     set (snd (SenseKubeletInfo
       (kubeletHost [''--kubeconfig=/etc/kubernetes/kubelet.conf'']) ''--kubeconfig'')) \<and>
   \<not> snd (GetArg (kubeletProcess [''--config=/etc/kubernetes/kubelet.conf'']) ''--kubeconfig'') \<and>
   kubeletKubeConfigDefaultPath \<in>
     set (snd (SenseKubeletInfo
       (kubeletHost [''--config=/etc/kubernetes/kubelet.conf'']) ''--kubeconfig''))"
proof -
  have "GetArg (kubeletProcess [''--kubeconfig=/etc/kubernetes/kubelet.conf'']) ''--kubeconfig'' =
      (kubeletKubeConfigDefaultPath, True)"
    by (simp add: GetArg_def kubeletProcess_def kubeletKubeConfigDefaultPath_def)
  then have "kubeletKubeConfigDefaultPath \<in>
     set (snd (SenseKubeletInfo
       (kubeletHost [''--kubeconfig=/etc/kubernetes/kubelet.conf'']) ''--kubeconfig''))"
    by (simp add: SenseKubeletInfo_located [OF kubelet_located])
  moreover have "GetArg (kubeletProcess [''--config=/etc/kubernetes/kubelet.conf''])
      kubeletConfigArgName = (kubeletKubeConfigDefaultPath, True)"
    by (simp add: GetArg_def kubeletProcess_def kubeletKubeConfigDefaultPath_def
        kubeletConfigArgName_def)
  then have "kubeletKubeConfigDefaultPath \<in>
     set (snd (SenseKubeletInfo
       (kubeletHost [''--config=/etc/kubernetes/kubelet.conf'']) ''--kubeconfig''))"
    by (simp add: SenseKubeletInfo_located [OF kubelet_located])
  moreover have
    "\<not> snd (GetArg (kubeletProcess [''--config=/etc/kubernetes/kubelet.conf'']) ''--kubeconfig'')"
    by (simp add: GetArg_def kubeletProcess_def)
  ultimately show ?thesis by simp
qed

section \<open>Missing files\<close>

lemma Inspect_nil_iff:
  "fst (Inspect fs path withContent) = None \<longleftrightarrow>
   fs path = Inl NotExist \<or> fs path = Inl PermissionDenied"
proof (cases "fs path")
  case (Inl err)
  then show ?thesis by (cases err) (simp_all add: Inspect_def)
next
  case (Inr st)
  then show ?thesis by (simp add: Inspect_def)
qed

lemma map_Some_map_filter:
  "map Some (List.map_filter f xs) = filter (\<lambda>r. r \<noteq> None) (map f xs)"
  by (induction xs) (auto split: option.splits)

lemma inspectingHost_fields:
  "makeHostFileInfoVerbose (inspectingHost fs h) path readContent =
     fst (Inspect fs (Resolve (HostFileSystemDefaultLocation h) path) readContent)"
  "getKubeletServiceFiles (inspectingHost fs h) = getKubeletServiceFiles h"
  by (simp_all add: inspectingHost_def)

lemma makeKubeletServiceFilesInfo_skips_nil:
  assumes "getKubeletServiceFiles h pid = (files, None)"
  shows "case makeKubeletServiceFilesInfo (inspectingHost fs h) pid of
       None \<Rightarrow>
         list_all (\<lambda>file.
           fst (Inspect fs (Resolve (HostFileSystemDefaultLocation h) file) False) = None) files
     | Some infos \<Rightarrow>
         infos \<noteq> [] \<and>
         map Some infos =
           filter (\<lambda>r. r \<noteq> None)
             (map (\<lambda>file. fst (Inspect fs (Resolve (HostFileSystemDefaultLocation h) file) False))
                files)"
proof -
  let ?f = "\<lambda>file. fst (Inspect fs (Resolve (HostFileSystemDefaultLocation h) file) False)"
  have found: "makeKubeletServiceFilesInfo (inspectingHost fs h) pid =
      (if List.map_filter ?f files = [] then None else Some (List.map_filter ?f files))"
    using assms by (simp add: makeKubeletServiceFilesInfo_def inspectingHost_fields)
  show ?thesis
  proof (cases "List.map_filter ?f files = []")
    case True
    then have "filter (\<lambda>r. r \<noteq> None) (map ?f files) = []"
      using map_Some_map_filter [of ?f files] by simp
    then have "list_all (\<lambda>file. ?f file = None) files"
      by (auto simp: filter_empty_conv list_all_iff)
    with True found show ?thesis by simp
  next
    case False
    with found show ?thesis by (simp add: map_Some_map_filter)
  qed
qed


lemma makeProcessInfoVerbose_fields:
  "makeProcessInfoVerbose (inspectingHost fs h) p specsPath configPath kubeConfigPath clientCaPath =
     (let field = (\<lambda>path. if path = [] then None
            else fst (Inspect fs (Resolve (HostFileSystemDefaultLocation h) path) False));
          cmd = (case p of None \<Rightarrow> [] | Some pd \<Rightarrow> RawCmd pd)
      in if field specsPath = None \<and> field configPath = None \<and> field kubeConfigPath = None \<and>
            field clientCaPath = None \<and> cmd = []
         then None
         else Some \<lparr>SpecsFile = field specsPath, ConfigFile = field configPath,
                    KubeConfigFile = field kubeConfigPath, ClientCAFile = field clientCaPath,
                    CmdLine = cmd\<rparr>)"
  unfolding makeProcessInfoVerbose_def processFile_def K8sProcessInfo_zero_def Let_def
    inspectingHost_fields
  by simp

lemma captured_eq:
  "(case r of (info, None) \<Rightarrow> info | (info, Some err) \<Rightarrow> None) =
   (if snd r = None then fst r else None)"
  by (cases r) (simp split: option.splits)

lemma SenseKubeletInfo_drops_errors:
  assumes "LocateKubeletProcess h = Inr kp"
  shows "fst (SenseKubeletInfo h kcArg) =
     (let configPath =
            (if snd (GetArg kp kubeletConfigArgName) then fst (GetArg kp kubeletConfigArgName)
             else kubeletConfigDefaultPath);
          kubeConfigPath =
            (if snd (GetArg kp kcArg) then fst (GetArg kp kcArg) else kubeletConfigDefaultPath);
          caFilePath = kubeletCAFilePath h kp (fst (makeHostFileInfo h configPath True));
          captured = (\<lambda>path readContent.
            case makeHostFileInfo h path readContent of
              (info, None) \<Rightarrow> info
            | (info, Some err) \<Rightarrow> None)
      in (\<lparr>ServiceFiles = makeKubeletServiceFilesInfo h (PID kp),
           kubeletConfigFile = captured configPath True,
           kubeletKubeConfigFile = captured kubeConfigPath False,
           kubeletClientCAFile = (if caFilePath = [] then None else captured caFilePath False),
           kubeletCmdLine = RawCmd kp\<rparr>,
          None))"
  using assms
  by (simp add: SenseKubeletInfo_def Let_def captured_eq split_beta)


text \<open>
  C6. For every path that does not exist or cannot be accessed, \<open>Inspect\<close> returns nil
  and records one warning, and it returns nil for no other path; its result carries no
  error, so nothing is raised or propagated. The callers in the sources go on with nil
  as no evidence, whatever the other files are:
  \<^verbatim>\<open>makeKubeletServiceFilesInfo\<close> returns exactly the non-nil file informations of its
  list, in order (nil only when every file is missing);
  \<^verbatim>\<open>makeProcessInfoVerbose\<close> fills each of its four fields from its own path, a missing
  file leaving only its own field nil, and still records the command line; and
  \<^verbatim>\<open>SenseKubeletInfo\<close>, whose \<^verbatim>\<open>makeHostFileInfo\<close> hands it an error value beside the nil,
  drops each error, captures every other file and returns its record with a nil error.
\<close>

theorem Inspect_missing_path_is_nil:
  "(fs path = Inl NotExist \<or> fs path = Inl PermissionDenied \<longrightarrow>
      Inspect fs path withContent = (None, [Warning ''failed to stat file'' path])) \<and>
   (fst (Inspect fs path withContent) = None \<longleftrightarrow>
      fs path = Inl NotExist \<or> fs path = Inl PermissionDenied) \<and>
   (getKubeletServiceFiles h pid = (files, None) \<longrightarrow>
      (case makeKubeletServiceFilesInfo (inspectingHost fs h) pid of
         None \<Rightarrow>
           list_all (\<lambda>file.
             fst (Inspect fs (Resolve (HostFileSystemDefaultLocation h) file) False) = None) files
       | Some infos \<Rightarrow>
           infos \<noteq> [] \<and>
           map Some infos =
             filter (\<lambda>r. r \<noteq> None)
               (map (\<lambda>file.
                  fst (Inspect fs (Resolve (HostFileSystemDefaultLocation h) file) False)) files))) \<and>
   makeProcessInfoVerbose (inspectingHost fs h) p specsPath configPath kubeConfigPath clientCaPath =
     (let field = (\<lambda>file. if file = [] then None
            else fst (Inspect fs (Resolve (HostFileSystemDefaultLocation h) file) False));
          cmd = (case p of None \<Rightarrow> [] | Some pd \<Rightarrow> RawCmd pd)
      in if field specsPath = None \<and> field configPath = None \<and> field kubeConfigPath = None \<and>
            field clientCaPath = None \<and> cmd = []
         then None
         else Some \<lparr>SpecsFile = field specsPath, ConfigFile = field configPath,
                    KubeConfigFile = field kubeConfigPath, ClientCAFile = field clientCaPath,
                    CmdLine = cmd\<rparr>) \<and>
   (LocateKubeletProcess h = Inr kp \<longrightarrow>
      fst (SenseKubeletInfo h kcArg) =
        (let configFilePath =
               (if snd (GetArg kp kubeletConfigArgName) then fst (GetArg kp kubeletConfigArgName)
                else kubeletConfigDefaultPath);
             kubeConfigFilePath =
               (if snd (GetArg kp kcArg) then fst (GetArg kp kcArg)
                else kubeletConfigDefaultPath);
             caFilePath = kubeletCAFilePath h kp (fst (makeHostFileInfo h configFilePath True));
             captured = (\<lambda>file readContent.
               case makeHostFileInfo h file readContent of
                 (info, None) \<Rightarrow> info
               | (info, Some err) \<Rightarrow> None)
         in (\<lparr>ServiceFiles = makeKubeletServiceFilesInfo h (PID kp),
              kubeletConfigFile = captured configFilePath True,
              kubeletKubeConfigFile = captured kubeConfigFilePath False,
              kubeletClientCAFile =
                (if caFilePath = [] then None else captured caFilePath False),
              kubeletCmdLine = RawCmd kp\<rparr>,
             None)))"
proof (intro conjI impI)
  assume "fs path = Inl NotExist \<or> fs path = Inl PermissionDenied"
  then show "Inspect fs path withContent = (None, [Warning ''failed to stat file'' path])"
    by (auto simp: Inspect_def)
next
  show "fst (Inspect fs path withContent) = None \<longleftrightarrow>
      fs path = Inl NotExist \<or> fs path = Inl PermissionDenied"
    by (rule Inspect_nil_iff)
next
  assume "getKubeletServiceFiles h pid = (files, None)"
  then show "case makeKubeletServiceFilesInfo (inspectingHost fs h) pid of
       None \<Rightarrow>
         list_all (\<lambda>file.
           fst (Inspect fs (Resolve (HostFileSystemDefaultLocation h) file) False) = None) files
     | Some infos \<Rightarrow>
         infos \<noteq> [] \<and>
         map Some infos =
           filter (\<lambda>r. r \<noteq> None)
             (map (\<lambda>file.
                fst (Inspect fs (Resolve (HostFileSystemDefaultLocation h) file) False)) files)"
    by (rule makeKubeletServiceFilesInfo_skips_nil)
next
  show "makeProcessInfoVerbose (inspectingHost fs h) p specsPath configPath kubeConfigPath
      clientCaPath =
     (let field = (\<lambda>file. if file = [] then None
            else fst (Inspect fs (Resolve (HostFileSystemDefaultLocation h) file) False));
          cmd = (case p of None \<Rightarrow> [] | Some pd \<Rightarrow> RawCmd pd)
      in if field specsPath = None \<and> field configPath = None \<and> field kubeConfigPath = None \<and>
            field clientCaPath = None \<and> cmd = []
         then None
         else Some \<lparr>SpecsFile = field specsPath, ConfigFile = field configPath,
                    KubeConfigFile = field kubeConfigPath, ClientCAFile = field clientCaPath,
                    CmdLine = cmd\<rparr>)"
    by (rule makeProcessInfoVerbose_fields)
next
  assume "LocateKubeletProcess h = Inr kp"
  then show "fst (SenseKubeletInfo h kcArg) =
      (let configFilePath =
             (if snd (GetArg kp kubeletConfigArgName) then fst (GetArg kp kubeletConfigArgName)
              else kubeletConfigDefaultPath);
           kubeConfigFilePath =
             (if snd (GetArg kp kcArg) then fst (GetArg kp kcArg)
              else kubeletConfigDefaultPath);
           caFilePath = kubeletCAFilePath h kp (fst (makeHostFileInfo h configFilePath True));
           captured = (\<lambda>file readContent.
             case makeHostFileInfo h file readContent of
               (info, None) \<Rightarrow> info
             | (info, Some err) \<Rightarrow> None)
       in (\<lparr>ServiceFiles = makeKubeletServiceFilesInfo h (PID kp),
            kubeletConfigFile = captured configFilePath True,
            kubeletKubeConfigFile = captured kubeConfigFilePath False,
            kubeletClientCAFile =
              (if caFilePath = [] then None else captured caFilePath False),
            kubeletCmdLine = RawCmd kp\<rparr>,
           None))"
    by (rule SenseKubeletInfo_drops_errors)
qed


theorem Inspect_missing_path_is_nil_witness:
  "Inspect (filesystemWith []) ''/host/etc/kubernetes/admin.conf'' True =
     (None, [Warning ''failed to stat file'' ''/host/etc/kubernetes/admin.conf'']) \<and>
   makeKubeletServiceFilesInfo
     (inspectingHost (filesystemWith [''/host/usr/lib/systemd/system/kubelet.service''])
        (bareHost\<lparr>getKubeletServiceFiles :=
           (\<lambda>pid. ([''/etc/gone.conf'', ''/usr/lib/systemd/system/kubelet.service''], None))\<rparr>))
     640 =
     Some [\<lparr>Path = ''/host/usr/lib/systemd/system/kubelet.service'', Content = None,
            Ownership = (0, 0), Permission = 420, IsDirectory = False\<rparr>] \<and>
   makeProcessInfoVerbose
     (inspectingHost (filesystemWith [''/host/etc/kubernetes/controller-manager.conf'']) bareHost)
     None controllerManagerSpecsPath controllerManagerConfigPath [] [] =
     Some \<lparr>SpecsFile = None,
           ConfigFile =
             Some \<lparr>Path = ''/host/etc/kubernetes/controller-manager.conf'', Content = None,
                   Ownership = (0, 0), Permission = 420, IsDirectory = False\<rparr>,
           KubeConfigFile = None, ClientCAFile = None, CmdLine = []\<rparr> \<and>
   fst (SenseKubeletInfo (kubeletHost [''--config=/gone.yaml'']) ''--kubeconfig'') =
     (\<lparr>ServiceFiles = None, kubeletConfigFile = None,
       kubeletKubeConfigFile = Some (plainFile kubeletConfigDefaultPath),
       kubeletClientCAFile = None,
       kubeletCmdLine = ''/usr/bin/kubelet --config=/gone.yaml''\<rparr>, None)"
proof -
  have root: "HostFileSystemDefaultLocation (bareHost\<lparr>getKubeletServiceFiles := g\<rparr>) = ''/host''"
    "HostFileSystemDefaultLocation bareHost = ''/host''" for g
    by (simp_all add: bareHost_def)
  have resolved:
    "Resolve ''/host'' ''/etc/gone.conf'' = ''/host/etc/gone.conf''"
    "Resolve ''/host'' ''/usr/lib/systemd/system/kubelet.service'' =
      ''/host/usr/lib/systemd/system/kubelet.service''"
    "Resolve ''/host'' controllerManagerSpecsPath =
      ''/host/etc/kubernetes/manifests/kube-controller-manager.yaml''"
    "Resolve ''/host'' controllerManagerConfigPath = ''/host/etc/kubernetes/controller-manager.conf''"
    by (simp_all add: Resolve_def Join_def Clean_def cleanElems_def cleanStep_def joinSlash_def
        controllerManagerSpecsPath_def controllerManagerConfigPath_def)
  have paths: "controllerManagerSpecsPath \<noteq> []" "controllerManagerConfigPath \<noteq> []"
    by (simp_all add: controllerManagerSpecsPath_def controllerManagerConfigPath_def)

  have first: "Inspect (filesystemWith []) ''/host/etc/kubernetes/admin.conf'' True =
      (None, [Warning ''failed to stat file'' ''/host/etc/kubernetes/admin.conf''])"
    using Inspect_missing_path_is_nil
      [where fs = "filesystemWith []" and path = "''/host/etc/kubernetes/admin.conf''"
         and withContent = True]
    by (simp add: filesystemWith_def)

  let ?fs = "filesystemWith [''/host/usr/lib/systemd/system/kubelet.service'']"
  let ?h = "bareHost\<lparr>getKubeletServiceFiles :=
      (\<lambda>pid. ([''/etc/gone.conf'', ''/usr/lib/systemd/system/kubelet.service''], None))\<rparr>"
  let ?unit = "\<lparr>Path = ''/host/usr/lib/systemd/system/kubelet.service'', Content = None,
      Ownership = (0, 0), Permission = 420, IsDirectory = False\<rparr>"
  have gone: "fst (Inspect ?fs ''/host/etc/gone.conf'' False) = None"
    by (simp add: Inspect_def filesystemWith_def)
  have there: "fst (Inspect ?fs ''/host/usr/lib/systemd/system/kubelet.service'' False) =
      Some ?unit"
    by (simp add: Inspect_def filesystemWith_def)
  have listed: "getKubeletServiceFiles ?h 640 =
      ([''/etc/gone.conf'', ''/usr/lib/systemd/system/kubelet.service''], None)"
    by simp
  note services = Inspect_missing_path_is_nil
    [where fs = ?fs and h = ?h and pid = 640
       and files = "[''/etc/gone.conf'', ''/usr/lib/systemd/system/kubelet.service'']"]
  have second: "makeKubeletServiceFilesInfo (inspectingHost ?fs ?h) 640 = Some [?unit]"
  proof (cases "makeKubeletServiceFilesInfo (inspectingHost ?fs ?h) 640")
    case None
    with services listed have "fst (Inspect ?fs
        (Resolve (HostFileSystemDefaultLocation ?h) ''/usr/lib/systemd/system/kubelet.service'')
        False) = None"
      by simp
    with there show ?thesis
      by (simp add: root resolved)
  next
    case (Some infos)
    with services listed have "map Some infos = [Some ?unit]"
      by (simp add: root resolved gone there)
    then have "infos = [?unit]"
      by (cases infos) auto
    with Some show ?thesis by simp
  qed

  let ?fs' = "filesystemWith [''/host/etc/kubernetes/controller-manager.conf'']"
  let ?conf = "\<lparr>Path = ''/host/etc/kubernetes/controller-manager.conf'', Content = None,
      Ownership = (0, 0), Permission = 420, IsDirectory = False\<rparr>"
  have specs: "fst (Inspect ?fs' ''/host/etc/kubernetes/manifests/kube-controller-manager.yaml''
      False) = None"
    by (simp add: Inspect_def filesystemWith_def)
  have conf: "fst (Inspect ?fs' ''/host/etc/kubernetes/controller-manager.conf'' False) =
      Some ?conf"
    by (simp add: Inspect_def filesystemWith_def)
  have third: "makeProcessInfoVerbose (inspectingHost ?fs' bareHost) None
      controllerManagerSpecsPath controllerManagerConfigPath [] [] =
      Some \<lparr>SpecsFile = None, ConfigFile = Some ?conf, KubeConfigFile = None,
            ClientCAFile = None, CmdLine = []\<rparr>"
    using Inspect_missing_path_is_nil
      [where fs = ?fs' and h = bareHost and p = None
         and specsPath = controllerManagerSpecsPath
         and configPath = controllerManagerConfigPath
         and kubeConfigPath = "[]" and clientCaPath = "[]"]
    by (simp add: Let_def root resolved paths specs conf)

  let ?k = "kubeletHost [''--config=/gone.yaml'']"
  let ?kp = "kubeletProcess [''--config=/gone.yaml'']"
  have located: "LocateKubeletProcess ?k = Inr ?kp"
    by (simp add: LocateKubeletProcess_def LocateProcessByExecSuffix_def kubeletHost_def
        bareHost_def kubeletProcess_def kubeletProcessSuffix_def suffix_def)
  have args: "GetArg ?kp kubeletConfigArgName = (''/gone.yaml'', True)"
    "GetArg ?kp ''--kubeconfig'' = ([], False)"
    "GetArg ?kp kubeletClientCAArgName = ([], False)"
    by (simp_all add: GetArg_def kubeletProcess_def kubeletConfigArgName_def
        kubeletClientCAArgName_def)
  have files: "makeHostFileInfo ?k ''/gone.yaml'' True = (None, Some noSuchFile)"
    "makeHostFileInfo ?k kubeletConfigDefaultPath False =
      (Some (plainFile kubeletConfigDefaultPath), None)"
    by (simp_all add: kubeletHost_def bareHost_def plainFile_def kubeletConfigDefaultPath_def
        kubeletKubeConfigDefaultPath_def)
  have noca: "kubeletCAFilePath ?k ?kp None = []"
    by (simp add: kubeletCAFilePath_def args)
  have nounits: "makeKubeletServiceFilesInfo ?k (PID ?kp) = None"
    by (simp add: makeKubeletServiceFilesInfo_def kubeletHost_def bareHost_def)
  have cmd: "RawCmd ?kp = ''/usr/bin/kubelet --config=/gone.yaml''"
    by (simp add: RawCmd_def kubeletProcess_def)
  have fourth: "fst (SenseKubeletInfo ?k ''--kubeconfig'') =
      (\<lparr>ServiceFiles = None, kubeletConfigFile = None,
        kubeletKubeConfigFile = Some (plainFile kubeletConfigDefaultPath),
        kubeletClientCAFile = None,
        kubeletCmdLine = ''/usr/bin/kubelet --config=/gone.yaml''\<rparr>, None)"
    using Inspect_missing_path_is_nil
      [where h = ?k and kp = ?kp and kcArg = "''--kubeconfig''"] located
    by (simp add: Let_def args files noca nounits cmd)
  from first second third fourth show ?thesis
    by simp
qed

end
